theory Spec2Isabelle
  imports Main "HOL-Library.AList"
begin

section \<open>Python values and the library functions the agent code relies on\<close>

text \<open>
  The agent code is dynamically typed: tool names, tool parameters, tool results and
  final answers are whatever \<^verbatim>\<open>json.loads\<close> decoded or a tool returned. The values that
  can occur are collected in one datatype. A dict is an association list in insertion
  order (Python dicts keep it) with string keys, a set is the list of its elements in
  iteration order. A string is a list of code points below 256 (ASCII and Latin-1), and
  the functions on characters below are those of Python on these code points; text with
  other code points and floating-point numbers are outside the model.
\<close>

datatype pyval =
    PNone
  | PBool bool
  | PInt int
  | PStr string
  | PList "pyval list"
  | PDict "(string \<times> pyval) list"
  | PSet "pyval list"

text \<open>
  A raised exception: its class name and \<^verbatim>\<open>str(e)\<close>. \<open>PyExn\<close> is an instance of
  \<^verbatim>\<open>Exception\<close>, which \<^verbatim>\<open>except Exception\<close> catches; \<open>PyBaseExn\<close> is any other
  \<^verbatim>\<open>BaseException\<close> (\<^verbatim>\<open>SystemExit\<close>, \<^verbatim>\<open>KeyboardInterrupt\<close>, \<^verbatim>\<open>GeneratorExit\<close>), which it
  does not catch.
\<close>

datatype py_exn =
    is_Exception: PyExn (exn_class: string) (exn_msg: string)
  | PyBaseExn (exn_class: string) (exn_msg: string)

text \<open>\<^verbatim>\<open>except json.JSONDecodeError\<close>: the class has no subclass, so its name decides.\<close>

definition is_JSONDecodeError :: "py_exn \<Rightarrow> bool" where
  "is_JSONDecodeError e = (is_Exception e \<and> exn_class e = ''JSONDecodeError'')"

text \<open>Truth value testing (\<^verbatim>\<open>if x\<close>, \<^verbatim>\<open>not x\<close>).\<close>

fun truthy :: "pyval \<Rightarrow> bool" where
  "truthy PNone = False"
| "truthy (PBool b) = b"
| "truthy (PInt i) = (i \<noteq> 0)"
| "truthy (PStr s) = (s \<noteq> [])"
| "truthy (PList xs) = (xs \<noteq> [])"
| "truthy (PDict kvs) = (kvs \<noteq> [])"
| "truthy (PSet xs) = (xs \<noteq> [])"

fun is_str :: "pyval \<Rightarrow> bool" where
  "is_str (PStr s) = True"
| "is_str v = False"

fun hashable :: "pyval \<Rightarrow> bool" where
  "hashable (PList xs) = False"
| "hashable (PDict kvs) = False"
| "hashable (PSet xs) = False"
| "hashable v = True"

fun type_name :: "pyval \<Rightarrow> string" where
  "type_name PNone = ''NoneType''"
| "type_name (PBool b) = ''bool''"
| "type_name (PInt i) = ''int''"
| "type_name (PStr s) = ''str''"
| "type_name (PList xs) = ''list''"
| "type_name (PDict kvs) = ''dict''"
| "type_name (PSet xs) = ''set''"

subsection \<open>Strings\<close>

text \<open>
  \<^verbatim>\<open>c.isalpha()\<close> for a code point below 256: the ASCII letters, the feminine and
  masculine ordinal indicators, the micro sign and the Latin-1 letters (all of
  \<^verbatim>\<open>U+00C0\<close> to \<^verbatim>\<open>U+00FF\<close> but the multiplication and the division sign).
\<close>

definition is_alpha :: "char \<Rightarrow> bool" where
  "is_alpha c =
     (let n = (of_char c :: nat) in
      (65 \<le> n \<and> n \<le> 90) \<or> (97 \<le> n \<and> n \<le> 122) \<or> n = 170 \<or> n = 181 \<or> n = 186
      \<or> (192 \<le> n \<and> n \<le> 214) \<or> (216 \<le> n \<and> n \<le> 246) \<or> (248 \<le> n \<and> n \<le> 255))"

text \<open>
  The characters that \<^verbatim>\<open>strip()\<close> removes, below 256: tab to carriage return, the four
  separators \<^verbatim>\<open>U+001C\<close> to \<^verbatim>\<open>U+001F\<close>, the space, \<^verbatim>\<open>U+0085\<close> and \<^verbatim>\<open>U+00A0\<close>.
\<close>

definition is_space :: "char \<Rightarrow> bool" where
  "is_space c =
     (let n = (of_char c :: nat) in
      (9 \<le> n \<and> n \<le> 13) \<or> (28 \<le> n \<and> n \<le> 32) \<or> n = 133 \<or> n = 160)"

definition strip :: "string \<Rightarrow> string" where
  "strip s = rev (dropWhile is_space (rev (dropWhile is_space s)))"

text \<open>\<^verbatim>\<open>s.split(d)\<close> for a one-character separator: never returns the empty list.\<close>

fun split_on :: "char \<Rightarrow> string \<Rightarrow> string list" where
  "split_on d [] = [[]]"
| "split_on d (c # cs) =
     (if c = d then [] # split_on d cs
      else (case split_on d cs of [] \<Rightarrow> [[c]] | w # ws \<Rightarrow> (c # w) # ws))"

text \<open>\<^verbatim>\<open>sep.join(xs)\<close>.\<close>

fun join :: "string \<Rightarrow> string list \<Rightarrow> string" where
  "join sep [] = []"
| "join sep [x] = x"
| "join sep (x # y # ys) = x @ sep @ join sep (y # ys)"

text \<open>\<^verbatim>\<open>s.replace(old, new)\<close>: every non-overlapping occurrence, left to right.\<close>

function str_replace :: "string \<Rightarrow> string \<Rightarrow> string \<Rightarrow> string" where
  "str_replace old new s =
     (if old = [] then concat (map (\<lambda>c. new @ [c]) s) @ new
      else if s = [] then []
      else if take (length old) s = old then new @ str_replace old new (drop (length old) s)
      else hd s # str_replace old new (tl s))"
  by pat_completeness auto
termination
  by (relation "measure (\<lambda>(old, new, s). length s)") auto

declare str_replace.simps [simp del]

definition digit_char :: "nat \<Rightarrow> char" where
  "digit_char d = char_of (48 + d)"

fun show_nat :: "nat \<Rightarrow> string" where
  "show_nat n = (if n < 10 then [digit_char n] else show_nat (n div 10) @ [digit_char (n mod 10)])"

declare show_nat.simps [simp del]

definition show_int :: "int \<Rightarrow> string" where
  "show_int i = (if i < 0 then CHR ''-'' # show_nat (nat (- i)) else show_nat (nat i))"

definition hex_char :: "nat \<Rightarrow> char" where
  "hex_char d = (if d < 10 then char_of (48 + d) else char_of (87 + d))"

text \<open>
  \<^verbatim>\<open>repr\<close> of a string: single quotes unless the text has a single and no double quote;
  the quote, the backslash and the characters that are not printable are escaped.
\<close>

definition repr_quote :: "string \<Rightarrow> char" where
  "repr_quote s = (if CHR 0x27 \<in> set s \<and> CHR 0x22 \<notin> set s then CHR 0x22 else CHR 0x27)"

definition repr_char :: "char \<Rightarrow> char \<Rightarrow> string" where
  "repr_char q c =
     (let n = (of_char c :: nat) in
      if c = q \<or> c = CHR 0x5C then [CHR 0x5C, c]
      else if n = 9 then [CHR 0x5C, CHR ''t'']
      else if n = 10 then [CHR 0x5C, CHR ''n'']
      else if n = 13 then [CHR 0x5C, CHR ''r'']
      else if n < 32 \<or> (127 \<le> n \<and> n \<le> 160) \<or> n = 173
      then [CHR 0x5C, CHR ''x'', hex_char (n div 16), hex_char (n mod 16)]
      else [c])"

definition repr_str :: "string \<Rightarrow> string" where
  "repr_str s = (let q = repr_quote s in [q] @ concat (map (repr_char q) s) @ [q])"

fun py_repr :: "pyval \<Rightarrow> string" where
  "py_repr PNone = ''None''"
| "py_repr (PBool b) = (if b then ''True'' else ''False'')"
| "py_repr (PInt i) = show_int i"
| "py_repr (PStr s) = repr_str s"
| "py_repr (PList xs) = ''['' @ join '', '' (map py_repr xs) @ '']''"
| "py_repr (PDict kvs) =
     ''{'' @ join '', '' (map (\<lambda>(k, v). repr_str k @ '': '' @ py_repr v) kvs) @ ''}''"
| "py_repr (PSet xs) =
     (if xs = [] then ''set()'' else ''{'' @ join '', '' (map py_repr xs) @ ''}'')"

text \<open>\<^verbatim>\<open>str(v)\<close>, which is also what an f-string inserts.\<close>

definition py_str :: "pyval \<Rightarrow> string" where
  "py_str v = (case v of PStr s \<Rightarrow> s | _ \<Rightarrow> py_repr v)"

definition quoted :: "string \<Rightarrow> string" where
  "quoted s = CHR 0x27 # s @ [CHR 0x27]"

text \<open>\<^verbatim>\<open>d.get(k, default)\<close> on a dict with string keys.\<close>

definition dict_get :: "(string \<times> 'v) list \<Rightarrow> string \<Rightarrow> 'v \<Rightarrow> 'v" where
  "dict_get d k dflt = (case map_of d k of Some v \<Rightarrow> v | None \<Rightarrow> dflt)"

text \<open>
  \<^verbatim>\<open>key in d\<close> and \<^verbatim>\<open>d[key]\<close> for a key that is any value and a dict keyed by strings:
  an unhashable key raises \<^verbatim>\<open>TypeError\<close>, a key that is not a string is not found.
\<close>

definition dict_find :: "pyval \<Rightarrow> (string \<times> 'v) list \<Rightarrow> py_exn + 'v option" where
  "dict_find key d =
     (if \<not> hashable key
      then Inl (PyExn ''TypeError'' (''unhashable type: '' @ quoted (type_name key)))
      else Inr (case key of PStr s \<Rightarrow> map_of d s | _ \<Rightarrow> None))"

subsection \<open>The library functions taken as parameters\<close>

text \<open>
  \<^verbatim>\<open>re.search\<close> with the two fence patterns of the parsers, \<^verbatim>\<open>json.loads\<close> and
  \<^verbatim>\<open>str.format(user_input=...)\<close> belong to the Python library. They are parameters of the
  model: \<open>re_search_json f s\<close> is group 1 of the first match of the pattern for fence \<open>f\<close>
  in \<open>s\<close>, \<open>json_loads s\<close> is the decoded value or the exception raised (a
  \<^verbatim>\<open>JSONDecodeError\<close> for text that is not JSON, possibly another one such as a
  \<^verbatim>\<open>RecursionError\<close>), \<open>str_format t q\<close> is \<^verbatim>\<open>t.format(user_input=q)\<close>.
\<close>

datatype fence = Backticks | Quotes

record pyenv =
  re_search_json :: "fence \<Rightarrow> string \<Rightarrow> string option"
  json_loads :: "string \<Rightarrow> py_exn + pyval"
  str_format :: "string \<Rightarrow> string \<Rightarrow> py_exn + string"

section \<open>Tools, the registry and the parameter binder\<close>

text \<open>
  A tool function is called with positional and keyword arguments and returns a value or
  raises. Calls to the collaborators are recorded as events, so that a theorem can say
  which calls a run made. An entry of the registry is the dict with the keys
  \<^verbatim>\<open>description\<close> and \<^verbatim>\<open>function\<close> (the field \<open>func\<close>), in tool\_executor.py also
  \<^verbatim>\<open>parameter_schema\<close>.
\<close>

type_synonym tool_function = "pyval list \<Rightarrow> (string \<times> pyval) list \<Rightarrow> py_exn + pyval"

datatype event =
    ModelCall string
  | ToolCall string "pyval list" "(string \<times> pyval) list"

record tool_info =
  description :: string
  func :: tool_function

record tool_entry = tool_info +
  parameter_schema :: "pyval option"

definition call_fn ::
  "string \<Rightarrow> tool_function \<Rightarrow> pyval list \<Rightarrow> (string \<times> pyval) list \<Rightarrow> event list \<times> (py_exn + pyval)" where
  "call_fn name f args kwargs = ([ToolCall name args kwargs], f args kwargs)"

text \<open>\<^verbatim>\<open>[p.strip() for p in str(param_string).split(',')]\<close>\<close>

definition comma_params :: "pyval \<Rightarrow> pyval list" where
  "comma_params param_string = map (\<lambda>p. PStr (strip p)) (split_on CHR '','' (py_str param_string))"

definition looks_like_name :: "string \<Rightarrow> bool" where
  "looks_like_name first_key = (first_key \<noteq> [] \<and> list_ex is_alpha first_key)"

text \<open>
  \<^verbatim>\<open>json.loads\<close> of a parameters value that is a string; other values pass unchanged. The
  result is \<open>Inr None\<close> for the \<^verbatim>\<open>JSONDecodeError\<close> that both binders catch, and \<open>Inl e\<close>
  for any other exception, which they do not catch.
\<close>

definition loads_if_str :: "pyenv \<Rightarrow> pyval \<Rightarrow> py_exn + pyval option" where
  "loads_if_str env tool_parameters =
     (case tool_parameters of
        PStr s \<Rightarrow>
          (case json_loads env s of
             Inl e \<Rightarrow> (if is_JSONDecodeError e then Inr None else Inl e)
           | Inr v \<Rightarrow> Inr (Some v))
      | v \<Rightarrow> Inr (Some v))"

definition tool_not_found :: "pyval \<Rightarrow> string" where
  "tool_not_found tool_name = ''Error: Tool '' @ quoted (py_str tool_name) @ '' not found''"

definition error_executing :: "pyval \<Rightarrow> py_exn \<Rightarrow> string" where
  "error_executing tool_name e =
     ''Error executing tool '' @ quoted (py_str tool_name) @ '': '' @ exn_msg e"

subsection \<open>agent.py: \<^verbatim>\<open>execute_tool\<close>\<close>

text \<open>The body of the \<^verbatim>\<open>try\<close> block (lines 87 to 109).\<close>

fun call_with_params :: "string \<Rightarrow> tool_function \<Rightarrow> pyval \<Rightarrow> event list \<times> (py_exn + pyval)" where
  "call_with_params n f (PDict []) = call_fn n f [] []"
| "call_with_params n f (PDict ((first_key, first_value) # rest)) =
     (if looks_like_name first_key
      then call_fn n f [] ((first_key, first_value) # rest)
      else call_fn n f (comma_params (if truthy first_value then first_value else PStr first_key)) [])"
| "call_with_params n f (PSet []) = ([], Inl (PyExn ''IndexError'' ''list index out of range''))"
| "call_with_params n f (PSet (param_string # others)) = call_fn n f (comma_params param_string) []"
| "call_with_params n f v = ([], Inr (PStr ''Error: Unexpected parameter type''))"

definition execute_tool ::
  "pyenv \<Rightarrow> pyval \<Rightarrow> pyval \<Rightarrow> (string \<times> tool_info) list \<Rightarrow> event list \<times> (py_exn + pyval)" where
  "execute_tool env tool_name tool_parameters available_tools =
     (case dict_find tool_name available_tools of
        Inl e \<Rightarrow> ([], Inl e)
      | Inr None \<Rightarrow> ([], Inr (PStr (tool_not_found tool_name)))
      | Inr (Some info) \<Rightarrow>
          (if \<not> truthy tool_parameters \<or> tool_parameters = PStr ''None''
           then call_fn (py_str tool_name) (func info) [] []
           else (case loads_if_str env tool_parameters of
                   Inl e \<Rightarrow> ([], Inl e)
                 | Inr None \<Rightarrow> ([], Inr (PStr ''Error: Invalid parameter format''))
                 | Inr (Some p) \<Rightarrow>
                     (case call_with_params (py_str tool_name) (func info) p of
                        (evs, Inl e) \<Rightarrow>
                          (if is_Exception e then (evs, Inr (PStr (error_executing tool_name e)))
                           else (evs, Inl e))
                      | (evs, Inr v) \<Rightarrow> (evs, Inr v)))))"

subsection \<open>tool\_executor.py: \<^verbatim>\<open>ToolExecutor\<close>\<close>

definition str_result :: "event list \<times> (py_exn + pyval) \<Rightarrow> event list \<times> (py_exn + string)" where
  "str_result r = (case r of (evs, Inl e) \<Rightarrow> (evs, Inl e) | (evs, Inr v) \<Rightarrow> (evs, Inr (py_str v)))"

fun execute_with_params :: "tool_function \<Rightarrow> pyval \<Rightarrow> string \<Rightarrow> event list \<times> (py_exn + string)" where
  "execute_with_params f (PDict []) n = str_result (call_fn n f [] [])"
| "execute_with_params f (PDict ((first_key, first_value) # rest)) n =
     (if looks_like_name first_key
      then str_result (call_fn n f [] ((first_key, first_value) # rest))
      else str_result
        (call_fn n f (comma_params (if truthy first_value then first_value else PStr first_key)) []))"
| "execute_with_params f (PSet []) n = ([], Inl (PyExn ''IndexError'' ''list index out of range''))"
| "execute_with_params f (PSet (param_string # others)) n =
     str_result (call_fn n f (comma_params param_string) [])"
| "execute_with_params f (PList xs) n = str_result (call_fn n f xs [])"
| "execute_with_params f v n = str_result (call_fn n f [v] [])"

text \<open>\<^verbatim>\<open>try: ... except Exception as e: return f"Error executing tool '{tool_name}': {str(e)}"\<close>\<close>

definition catch_tool_error ::
  "pyval \<Rightarrow> event list \<times> (py_exn + string) \<Rightarrow> event list \<times> (py_exn + string)" where
  "catch_tool_error tool_name r =
     (case r of
        (evs, Inl e) \<Rightarrow>
          (if is_Exception e then (evs, Inr (error_executing tool_name e)) else (evs, Inl e))
      | (evs, Inr v) \<Rightarrow> (evs, Inr v))"

definition ToolExecutor_execute ::
  "pyenv \<Rightarrow> (string \<times> tool_entry) list \<Rightarrow> pyval \<Rightarrow> pyval \<Rightarrow> event list \<times> (py_exn + string)" where
  "ToolExecutor_execute env tools tool_name tool_parameters =
     (case dict_find tool_name tools of
        Inl e \<Rightarrow> ([], Inl e)
      | Inr None \<Rightarrow> ([], Inr (tool_not_found tool_name))
      | Inr (Some info) \<Rightarrow>
          (if \<not> truthy tool_parameters \<or> tool_parameters = PStr ''None''
           then catch_tool_error tool_name (str_result (call_fn (py_str tool_name) (func info) [] []))
           else (case loads_if_str env tool_parameters of
                   Inl e \<Rightarrow> ([], Inl e)
                 | Inr None \<Rightarrow> ([], Inr ''Error: Invalid parameter format'')
                 | Inr (Some p) \<Rightarrow>
                     catch_tool_error tool_name
                       (execute_with_params (func info) p (py_str tool_name)))))"

text \<open>
  \<^verbatim>\<open>register_tool\<close> and \<^verbatim>\<open>unregister_tool\<close>: a dict assignment keeps the place of a key that
  is already there and appends a new one; \<^verbatim>\<open>del\<close> removes the key.
\<close>

definition register_tool ::
  "string \<Rightarrow> string \<Rightarrow> tool_function \<Rightarrow> pyval option \<Rightarrow> (string \<times> tool_entry) list \<Rightarrow> (string \<times> tool_entry) list" where
  "register_tool name descr function_arg schema tools =
     AList.update name \<lparr>description = descr, func = function_arg, parameter_schema = schema\<rparr> tools"

definition unregister_tool :: "string \<Rightarrow> (string \<times> tool_entry) list \<Rightarrow> bool \<times> (string \<times> tool_entry) list" where
  "unregister_tool name tools =
     (if map_of tools name \<noteq> None then (True, AList.delete name tools) else (False, tools))"

definition get_tool :: "string \<Rightarrow> (string \<times> tool_entry) list \<Rightarrow> tool_entry option" where
  "get_tool name tools = map_of tools name"

definition list_tools :: "(string \<times> tool_entry) list \<Rightarrow> string list" where
  "list_tools tools = map fst tools"

definition get_tools_description :: "(string \<times> tool_entry) list \<Rightarrow> string" where
  "get_tools_description tools =
     join [CHR 0x0A] (map (\<lambda>(name, info). ''- '' @ name @ '': '' @ description info) tools)"

section \<open>The response interpreters\<close>

text \<open>
  The two regular expressions capture a text that starts with an opening and ends with a
  closing brace, so a decoding that succeeds yields a dict. The case of another value does
  not arise with the Python library and is there for totality.
\<close>

definition find_json_block :: "pyenv \<Rightarrow> string \<Rightarrow> string option" where
  "find_json_block env response =
     (case re_search_json env Backticks response of
        Some m \<Rightarrow> Some m
      | None \<Rightarrow> re_search_json env Quotes response)"

definition not_a_dict :: "pyval \<Rightarrow> py_exn" where
  "not_a_dict v = PyExn ''AttributeError'' (quoted (type_name v) @ '' object has no attribute '' @ quoted ''get'')"

subsection \<open>agent.py: \<^verbatim>\<open>parse_agent_response\<close>\<close>

definition parse_agent_response ::
  "pyenv \<Rightarrow> string \<Rightarrow> py_exn + ((string \<times> pyval) list \<times> (string \<times> pyval) list \<times> (string \<times> pyval) list)" where
  "parse_agent_response env response =
     (case find_json_block env response of
        None \<Rightarrow> Inl (PyExn ''ValueError''
                 (''Invalid response format: No JSON block found in response: '' @ take 200 response))
      | Some block \<Rightarrow>
          (case json_loads env block of
             Inl e \<Rightarrow> Inl e
           | Inr (PDict parsed_json) \<Rightarrow>
               Inr ([(''Tool call'', dict_get parsed_json ''Tool call'' (PStr ''None''))],
                    [(''Tool Parameters'', dict_get parsed_json ''Tool Parameters'' (PStr ''None''))],
                    [(''Final Response'', dict_get parsed_json ''Final Response'' (PStr ''None''))])
           | Inr v \<Rightarrow> Inl (not_a_dict v)))"

subsection \<open>response\_parser.py and agent\_config.py\<close>

record response_format =
  required_keys :: "string list"
  key_mapping :: "(string \<times> string) list"
  defaults :: "(string \<times> pyval) list"

definition get_json_key :: "response_format \<Rightarrow> string \<Rightarrow> string" where
  "get_json_key rf internal_name = dict_get (key_mapping rf) internal_name internal_name"

definition missing_keys :: "string list \<Rightarrow> (string \<times> pyval) list \<Rightarrow> string list" where
  "missing_keys required parsed_json = filter (\<lambda>key. map_of parsed_json key = None) required"

definition parse_json_response :: "pyenv \<Rightarrow> string \<Rightarrow> string list \<Rightarrow> py_exn + (string \<times> pyval) list" where
  "parse_json_response env response required =
     (case find_json_block env response of
        None \<Rightarrow> Inl (PyExn ''ValueError'' (''No JSON block found in response: '' @ take 200 response))
      | Some block \<Rightarrow>
          (case json_loads env block of
             Inl e \<Rightarrow>
               (if is_JSONDecodeError e
                then Inl (PyExn ''ValueError'' (''Invalid JSON format: '' @ exn_msg e))
                else Inl e)
           | Inr (PDict parsed_json) \<Rightarrow>
               (if required \<noteq> [] \<and> missing_keys required parsed_json \<noteq> []
                then Inl (PyExn ''ValueError''
                       (''Missing required keys: '' @ py_str (PList (map PStr (missing_keys required parsed_json)))))
                else Inr parsed_json)
           | Inr v \<Rightarrow> Inl (not_a_dict v)))"

text \<open>\<^verbatim>\<open>FlexibleAgent._parse_response\<close>: the decoded fields under their internal names.\<close>

definition standardize :: "response_format \<Rightarrow> (string \<times> pyval) list \<Rightarrow> (string \<times> pyval) list" where
  "standardize rf parsed =
     foldl (\<lambda>standardized internal_key.
              (case map_of parsed (get_json_key rf internal_key) of
                 Some v \<Rightarrow> AList.update internal_key v standardized
               | None \<Rightarrow> standardized))
       [] [''tool'', ''params'', ''response'', ''reasoning'']"

definition parse_response :: "pyenv \<Rightarrow> response_format \<Rightarrow> string \<Rightarrow> py_exn + (string \<times> pyval) list" where
  "parse_response env rf response =
     (case parse_json_response env response (required_keys rf) of
        Inl e \<Rightarrow> Inl e
      | Inr parsed \<Rightarrow> Inr (standardize rf parsed))"

section \<open>The agent loops\<close>

text \<open>
  The model collaborator: \<open>llm i p\<close> is what \<^verbatim>\<open>generate_response\<close> returns (or raises) for the
  request of iteration \<open>i\<close> with prompt \<open>p\<close>.
\<close>

type_synonym llm = "nat \<Rightarrow> string \<Rightarrow> py_exn + string"

text \<open>
  One pass through the body of the \<^verbatim>\<open>while\<close> loop either returns from \<^verbatim>\<open>invoke\<close> or reaches
  the update of the scratchpad with a tool name and a tool result.
\<close>

datatype turn =
    Return "event list" "py_exn + pyval"
  | Continue "event list" pyval pyval

text \<open>
  The local variables of the loop, with two records kept beside them: the pairs of tool
  name and result that were appended to the scratchpad, and the calls made so far.
\<close>

record loop_state =
  iteration :: int
  scratchpad :: string
  transcript :: "(pyval \<times> pyval) list"
  events :: "event list"

definition initial_state :: loop_state where
  "initial_state = \<lparr>iteration = 0, scratchpad = [], transcript = [], events = []\<rparr>"

definition full_prompt :: "string \<Rightarrow> string \<Rightarrow> string" where
  "full_prompt prompt pad = (if pad \<noteq> [] then prompt @ [CHR 0x0A] @ pad else prompt)"

text \<open>
  Both loops parse inside \<^verbatim>\<open>try: ... except Exception as e\<close> and return this text for an
  exception that is caught.
\<close>

definition parse_error :: "py_exn \<Rightarrow> pyval" where
  "parse_error e = PStr (''Error parsing response: '' @ exn_msg e)"

subsection \<open>agent.py: \<^verbatim>\<open>ToolCallAgent\<close>\<close>

record tool_call_agent =
  tc_prompt_template :: string
  tc_tools :: "(string \<times> tool_info) list"
  tc_llm :: "llm option"
  tc_compiled_prompt :: "string option"

text \<open>
  The fields of the agent carry the prefix \<open>tc\<close>; the flag \<^verbatim>\<open>verbose\<close>, which only
  prints, is left out. The template \<^verbatim>\<open>prompt\<close> of the module \<^verbatim>\<open>prompt.py\<close> is a parameter.
\<close>

definition ToolCallAgent_init :: "string \<Rightarrow> tool_call_agent" where
  "ToolCallAgent_init prompt =
     \<lparr>tc_prompt_template = prompt, tc_tools = [], tc_llm = None, tc_compiled_prompt = None\<rparr>"

definition add_llm :: "llm \<Rightarrow> tool_call_agent \<Rightarrow> tool_call_agent" where
  "add_llm l agent = agent\<lparr>tc_llm := Some l\<rparr>"

definition add_tool :: "string \<Rightarrow> string \<Rightarrow> tool_function \<Rightarrow> tool_call_agent \<Rightarrow> tool_call_agent" where
  "add_tool name descr function_arg agent =
     agent\<lparr>tc_tools := AList.update name \<lparr>description = descr, func = function_arg\<rparr> (tc_tools agent)\<rparr>"

definition tool_lines :: "(string \<times> tool_info) list \<Rightarrow> string" where
  "tool_lines tools =
     join [CHR 0x0A] (map (\<lambda>(name, info). ''        - '' @ name @ '': '' @ description info) tools)"

definition compile_prompt :: "tool_call_agent \<Rightarrow> tool_call_agent" where
  "compile_prompt agent =
     agent\<lparr>tc_compiled_prompt :=
       Some (str_replace ''{tool_list}'' (tool_lines (tc_tools agent)) (tc_prompt_template agent))\<rparr>"

definition ToolCallAgent_entry :: "pyval \<Rightarrow> pyval \<Rightarrow> string" where
  "ToolCallAgent_entry tool_name tool_result =
     [CHR 0x0A, CHR 0x0A] @ ''--- Previous Tool Call ---'' @ [CHR 0x0A] @
     ''Tool Used: '' @ py_str tool_name @ [CHR 0x0A] @
     ''Result: '' @ py_str tool_result @ [CHR 0x0A, CHR 0x0A] @
     ''Now provide the final response to the user based on this result.''"

definition ToolCallAgent_turn ::
  "pyenv \<Rightarrow> llm \<Rightarrow> (string \<times> tool_info) list \<Rightarrow> string \<Rightarrow> int \<Rightarrow> string \<Rightarrow> turn" where
  "ToolCallAgent_turn env l tools prompt i pad =
     (let request = ModelCall (full_prompt prompt pad) in
      case l (nat i) (full_prompt prompt pad) of
        Inl e \<Rightarrow> Return [request] (Inl e)
      | Inr response \<Rightarrow>
          (case parse_agent_response env response of
             Inl e \<Rightarrow>
               (if is_Exception e then Return [request] (Inr (parse_error e))
                else Return [request] (Inl e))
           | Inr (tool_call, tool_params, final_response) \<Rightarrow>
               (let tool_name = dict_get tool_call ''Tool call'' PNone in
                if tool_name = PStr ''None'' \<or> \<not> truthy tool_name
                then Return [request]
                       (Inr (dict_get final_response ''Final Response'' (PStr ''No response provided'')))
                else (case execute_tool env tool_name (dict_get tool_params ''Tool Parameters'' PNone) tools of
                        (evs, Inl e) \<Rightarrow> Return (request # evs) (Inl e)
                      | (evs, Inr tool_result) \<Rightarrow> Continue (request # evs) tool_name tool_result))))"

function ToolCallAgent_loop ::
  "pyenv \<Rightarrow> llm \<Rightarrow> (string \<times> tool_info) list \<Rightarrow> string \<Rightarrow> int \<Rightarrow> loop_state \<Rightarrow> loop_state \<times> (py_exn + pyval)" where
  "ToolCallAgent_loop env l tools prompt max_iter st =
     (if iteration st < max_iter
      then (case ToolCallAgent_turn env l tools prompt (iteration st + 1) (scratchpad st) of
              Return evs r \<Rightarrow> (st\<lparr>iteration := iteration st + 1, events := events st @ evs\<rparr>, r)
            | Continue evs tool_name tool_result \<Rightarrow>
                ToolCallAgent_loop env l tools prompt max_iter
                  (st\<lparr>iteration := iteration st + 1,
                      scratchpad := scratchpad st @ ToolCallAgent_entry tool_name tool_result,
                      transcript := transcript st @ [(tool_name, tool_result)],
                      events := events st @ evs\<rparr>))
      else (st, Inr (PStr ''Error: Maximum iterations reached'')))"
  by pat_completeness auto
termination
  by (relation "measure (\<lambda>(env, l, tools, prompt, max_iter, st). nat (max_iter - iteration st))") auto

declare ToolCallAgent_loop.simps [simp del]

definition ToolCallAgent_invoke ::
  "pyenv \<Rightarrow> tool_call_agent \<Rightarrow> string \<Rightarrow> tool_call_agent \<times> loop_state \<times> (py_exn + pyval)" where
  "ToolCallAgent_invoke env agent query =
     (case tc_llm agent of
        None \<Rightarrow> (agent, initial_state, Inl (PyExn ''ValueError'' ''LLM not set. Call add_llm() first''))
      | Some l \<Rightarrow>
          (if tc_tools agent = []
           then (agent, initial_state,
                 Inl (PyExn ''ValueError'' ''No tools added. Call add_tool() at least once''))
           else (let agent1 = (if tc_compiled_prompt agent = None then compile_prompt agent else agent) in
                 case tc_compiled_prompt agent1 of
                   None \<Rightarrow> (agent1, initial_state, Inl (PyExn ''AssertionError'' []))
                 | Some compiled \<Rightarrow>
                     (case str_format env compiled query of
                        Inl e \<Rightarrow> (agent1, initial_state, Inl e)
                      | Inr prompt \<Rightarrow>
                          (agent1, ToolCallAgent_loop env l (tc_tools agent1) prompt 10 initial_state)))))"

subsection \<open>base\_agent.py and flexible\_agent.py: \<^verbatim>\<open>FlexibleAgent\<close>\<close>

record agent_config =
  cfg_name :: string
  cfg_description :: string
  cfg_prompt_template :: string
  cfg_response_format :: response_format
  cfg_max_iterations :: int
  special_instructions :: string
  examples :: "string list"

text \<open>The field \<open>tools\<close> is the dict of the agent's \<^verbatim>\<open>tool_executor\<close>.\<close>

record flexible_agent =
  config :: agent_config
  prompt_template :: "string option"
  max_iterations :: int
  response_format :: response_format
  llm :: "llm option"
  tools :: "(string \<times> tool_entry) list"
  compiled_prompt :: "string option"

definition FlexibleAgent_init :: "agent_config \<Rightarrow> flexible_agent" where
  "FlexibleAgent_init cfg =
     \<lparr>config = cfg, prompt_template = Some (cfg_prompt_template cfg),
      max_iterations = cfg_max_iterations cfg, response_format = cfg_response_format cfg,
      llm = None, tools = [], compiled_prompt = None\<rparr>"

definition set_llm :: "llm \<Rightarrow> flexible_agent \<Rightarrow> flexible_agent" where
  "set_llm l agent = agent\<lparr>llm := Some l\<rparr>"

definition BaseAgent_add_tool ::
  "string \<Rightarrow> string \<Rightarrow> tool_function \<Rightarrow> pyval option \<Rightarrow> flexible_agent \<Rightarrow> flexible_agent" where
  "BaseAgent_add_tool name descr function_arg schema agent =
     agent\<lparr>tools := register_tool name descr function_arg schema (tools agent),
           compiled_prompt := None\<rparr>"

definition remove_tool :: "string \<Rightarrow> flexible_agent \<Rightarrow> bool \<times> flexible_agent" where
  "remove_tool name agent =
     (case unregister_tool name (tools agent) of
        (result, tools1) \<Rightarrow>
          (result, if result then agent\<lparr>tools := tools1, compiled_prompt := None\<rparr>
                   else agent\<lparr>tools := tools1\<rparr>))"

definition validate_setup :: "flexible_agent \<Rightarrow> string option" where
  "validate_setup agent =
     (if llm agent = None then Some ''LLM not set. Call set_llm() first''
      else if length (list_tools (tools agent)) = 0
      then Some ''No tools added. Call add_tool() at least once''
      else if prompt_template agent = None then Some ''Prompt template not set''
      else None)"

definition FlexibleAgent_compile_prompt :: "agent_config \<Rightarrow> (string \<times> tool_entry) list \<Rightarrow> string \<Rightarrow> string" where
  "FlexibleAgent_compile_prompt cfg tls template =
     (let compiled = str_replace ''{tool_list}'' (get_tools_description tls) template;
          compiled = (if special_instructions cfg \<noteq> []
                      then compiled @ [CHR 0x0A, CHR 0x0A] @ special_instructions cfg
                      else compiled)
      in if examples cfg \<noteq> []
         then compiled @ [CHR 0x0A, CHR 0x0A] @ ''Examples:'' @ [CHR 0x0A] @ join [CHR 0x0A] (examples cfg)
         else compiled)"

definition FlexibleAgent_entry :: "pyval \<Rightarrow> pyval \<Rightarrow> string" where
  "FlexibleAgent_entry tool_name tool_result =
     [CHR 0x0A, CHR 0x0A] @ ''--- Tool Execution ---'' @ [CHR 0x0A] @
     ''Tool: '' @ py_str tool_name @ [CHR 0x0A] @
     ''Result: '' @ py_str tool_result @ [CHR 0x0A, CHR 0x0A] @
     ''Provide the final response based on this result.''"

definition FlexibleAgent_turn ::
  "pyenv \<Rightarrow> llm \<Rightarrow> response_format \<Rightarrow> (string \<times> tool_entry) list \<Rightarrow> string \<Rightarrow> int \<Rightarrow> string \<Rightarrow> turn" where
  "FlexibleAgent_turn env l rf tls prompt_text i pad =
     (let request = ModelCall (full_prompt prompt_text pad) in
      case l (nat i) (full_prompt prompt_text pad) of
        Inl e \<Rightarrow> Return [request] (Inl e)
      | Inr response \<Rightarrow>
          (case parse_response env rf response of
             Inl e \<Rightarrow>
               (if is_Exception e then Return [request] (Inr (parse_error e))
                else Return [request] (Inl e))
           | Inr parsed \<Rightarrow>
               (let tool_name = dict_get parsed ''tool'' (PStr ''None'');
                    params = dict_get parsed ''params'' (PStr ''None'');
                    final_answer = dict_get parsed ''response'' (PStr ''None'')
                in if tool_name = PStr ''None'' \<or> tool_name = PNone \<or> \<not> truthy tool_name
                   then Return [request]
                          (Inr (if truthy final_answer \<and> final_answer \<noteq> PStr ''None''
                                then final_answer else PStr ''No response provided''))
                   else (case ToolExecutor_execute env tls tool_name params of
                           (evs, Inl e) \<Rightarrow> Return (request # evs) (Inl e)
                         | (evs, Inr tool_result) \<Rightarrow> Continue (request # evs) tool_name (PStr tool_result)))))"

definition budget_message :: "int \<Rightarrow> string" where
  "budget_message max_iter = ''Error: Maximum iterations ('' @ py_str (PInt max_iter) @ '') reached''"

function FlexibleAgent_loop ::
  "pyenv \<Rightarrow> llm \<Rightarrow> response_format \<Rightarrow> (string \<times> tool_entry) list \<Rightarrow> string \<Rightarrow> int \<Rightarrow> loop_state
     \<Rightarrow> loop_state \<times> (py_exn + pyval)" where
  "FlexibleAgent_loop env l rf tls prompt_text max_iter st =
     (if iteration st < max_iter
      then (case FlexibleAgent_turn env l rf tls prompt_text (iteration st + 1) (scratchpad st) of
              Return evs r \<Rightarrow> (st\<lparr>iteration := iteration st + 1, events := events st @ evs\<rparr>, r)
            | Continue evs tool_name tool_result \<Rightarrow>
                FlexibleAgent_loop env l rf tls prompt_text max_iter
                  (st\<lparr>iteration := iteration st + 1,
                      scratchpad := scratchpad st @ FlexibleAgent_entry tool_name tool_result,
                      transcript := transcript st @ [(tool_name, tool_result)],
                      events := events st @ evs\<rparr>))
      else (st, Inr (PStr (budget_message max_iter))))"
  by pat_completeness auto
termination
  by (relation "measure (\<lambda>(env, l, rf, tls, prompt_text, max_iter, st). nat (max_iter - iteration st))") auto

declare FlexibleAgent_loop.simps [simp del]

text \<open>
  \<open>max_iterations_kw\<close> is the keyword argument \<^verbatim>\<open>max_iterations\<close> of the call, when
  given. After \<^verbatim>\<open>validate_setup\<close> has passed, the model and the template are set; the last
  case of the definition is there for totality.
\<close>

definition FlexibleAgent_invoke ::
  "pyenv \<Rightarrow> flexible_agent \<Rightarrow> string \<Rightarrow> int option \<Rightarrow> flexible_agent \<times> loop_state \<times> (py_exn + pyval)" where
  "FlexibleAgent_invoke env agent query max_iterations_kw =
     (case validate_setup agent of
        Some error_msg \<Rightarrow> (agent, initial_state, Inl (PyExn ''ValueError'' error_msg))
      | None \<Rightarrow>
          (case (llm agent, prompt_template agent) of
             (Some l, Some template) \<Rightarrow>
               (let compiled =
                      (case compiled_prompt agent of
                         None \<Rightarrow> FlexibleAgent_compile_prompt (config agent) (tools agent) template
                       | Some c \<Rightarrow> c);
                    agent1 = agent\<lparr>compiled_prompt := Some compiled\<rparr>;
                    max_iter = (case max_iterations_kw of Some m \<Rightarrow> m | None \<Rightarrow> max_iterations agent)
                in (case str_format env compiled query of
                      Inl e \<Rightarrow> (agent1, initial_state, Inl e)
                    | Inr prompt_text \<Rightarrow>
                        (agent1,
                         FlexibleAgent_loop env l (response_format agent1) (tools agent1) prompt_text
                           max_iter initial_state)))
           | _ \<Rightarrow> (agent, initial_state, Inl (PyExn ''ValueError'' []))))"

section \<open>Example collaborators\<close>

text \<open>
  Concrete replies, a concrete library environment and concrete tools, on which the
  definitions above can be evaluated. A reply is a JSON object inside a fence of backticks;
  the environment finds and decodes exactly the blocks listed in \<open>example_blocks\<close>
  (any other text is not JSON for it), and it formats the templates whose only braces are
  those of the placeholder \<^verbatim>\<open>{user_input}\<close>, where \<^verbatim>\<open>str.format\<close> is a replacement; on
  any other template it raises.
\<close>

definition fenced :: "string \<Rightarrow> string" where
  "fenced block = ''```json'' @ block @ ''```''"

definition block_both :: string where
  \<open>block_both = ''{"Tool call": "calculator", "Tool Parameters": "None", "Final Response": "The answer is 4"}''\<close>

definition block_tool :: string where
  \<open>block_tool = ''{"Tool call": "calculator", "Tool Parameters": "None", "Final Response": "None"}''\<close>

definition block_unknown :: string where
  \<open>block_unknown = ''{"Tool call": "weather", "Tool Parameters": "None", "Final Response": "None"}''\<close>

definition block_final :: string where
  \<open>block_final = ''{"Tool call": "None", "Tool Parameters": "None", "Final Response": "done"}''\<close>

definition block_none :: string where
  \<open>block_none = ''{"Tool call": "None", "Tool Parameters": "None", "Final Response": "None"}''\<close>

definition block_answer_only :: string where
  \<open>block_answer_only = ''{"Final Response": "done"}''\<close>

definition block_empty :: string where
  "block_empty = ''{}''"

definition turn_dict :: "string \<Rightarrow> string \<Rightarrow> string \<Rightarrow> (string \<times> pyval) list" where
  "turn_dict t p a = [(''Tool call'', PStr t), (''Tool Parameters'', PStr p), (''Final Response'', PStr a)]"

definition example_blocks :: "(string \<times> pyval) list" where
  "example_blocks =
     [(block_both, PDict (turn_dict ''calculator'' ''None'' ''The answer is 4'')),
      (block_tool, PDict (turn_dict ''calculator'' ''None'' ''None'')),
      (block_unknown, PDict (turn_dict ''weather'' ''None'' ''None'')),
      (block_final, PDict (turn_dict ''None'' ''None'' ''done'')),
      (block_none, PDict (turn_dict ''None'' ''None'' ''None'')),
      (block_answer_only, PDict [(''Final Response'', PStr ''done'')]),
      (block_empty, PDict [])]"

definition only_placeholder :: "string \<Rightarrow> bool" where
  "only_placeholder t =
     (CHR ''{'' \<notin> set (str_replace ''{user_input}'' [] t)
      \<and> CHR ''}'' \<notin> set (str_replace ''{user_input}'' [] t))"

definition example_env :: pyenv where
  "example_env =
     \<lparr>re_search_json =
        (\<lambda>f s. if f = Backticks then map_of (map (\<lambda>(b, v). (fenced b, b)) example_blocks) s else None),
      json_loads =
        (\<lambda>s. case map_of example_blocks s of
               Some v \<Rightarrow> Inr v
             | None \<Rightarrow> Inl (PyExn ''JSONDecodeError'' ''Expecting value: line 1 column 1 (char 0)'')),
      str_format =
        (\<lambda>t q. if only_placeholder t then Inr (str_replace ''{user_input}'' q t)
               else Inl (PyExn ''ValueError'' ''format string outside the examples''))\<rparr>"

text \<open>A model that gives the listed replies in turn, and one that always gives the same.\<close>

definition scripted :: "string list \<Rightarrow> llm" where
  "scripted replies i p =
     (if 1 \<le> i \<and> i \<le> length replies then Inr (replies ! (i - 1))
      else Inl (PyExn ''RuntimeError'' ''no reply left''))"

definition repeating :: "string \<Rightarrow> llm" where
  "repeating reply i p = Inr reply"

text \<open>
  Tools: one that accepts any arguments and returns a fixed value, one that always raises
  a \<^verbatim>\<open>ValueError\<close>, one that always calls \<^verbatim>\<open>sys.exit(1)\<close>, and one that joins its two
  positional arguments and accepts no others.
\<close>

definition constant_tool :: "pyval \<Rightarrow> tool_function" where
  "constant_tool v args kwargs = Inr v"

definition raising_tool :: "string \<Rightarrow> tool_function" where
  "raising_tool msg args kwargs = Inl (PyExn ''ValueError'' msg)"

definition exiting_tool :: tool_function where
  "exiting_tool args kwargs = Inl (PyBaseExn ''SystemExit'' ''1'')"

definition pair_tool :: tool_function where
  "pair_tool args kwargs =
     (case (args, kwargs) of
        ([PStr a, PStr b], []) \<Rightarrow> Inr (PStr (a @ ''+'' @ b))
      | _ \<Rightarrow> Inl (PyExn ''TypeError'' ''pair_tool() takes 2 positional arguments''))"

definition example_template :: string where
  "example_template = ''Tools: {tool_list} query: {user_input}''"

definition example_agent :: "llm \<Rightarrow> pyval \<Rightarrow> tool_call_agent" where
  "example_agent l v =
     add_tool ''calculator'' ''Evaluates math expressions'' (constant_tool v)
       (add_llm l (ToolCallAgent_init example_template))"

text \<open>The response format of \<^verbatim>\<open>TOOLCALL_AGENT_CONFIG\<close> in agent\_config.py.\<close>

definition toolcall_format :: response_format where
  "toolcall_format =
     \<lparr>required_keys = [''Tool call'', ''Tool Parameters'', ''Final Response''],
      key_mapping = [(''tool'', ''Tool call''), (''params'', ''Tool Parameters''), (''response'', ''Final Response'')],
      defaults = [(''Tool call'', PStr ''None''), (''Tool Parameters'', PStr ''None''),
                  (''Final Response'', PStr ''None'')]\<rparr>"



definition example_tools :: "tool_function \<Rightarrow> (string \<times> tool_info) list" where
  "example_tools f = [(''calculator'', \<lparr>description = ''Evaluates math expressions'', func = f\<rparr>)]"

definition example_entries :: "tool_function \<Rightarrow> (string \<times> tool_entry) list" where
  "example_entries f = register_tool ''calculator'' ''Evaluates math expressions'' f None []"

section \<open>Vocabulary of the statements\<close>


definition agent_call :: "string \<Rightarrow> tool_function \<Rightarrow> pyval list \<Rightarrow> (string \<times> pyval) list \<Rightarrow> event list \<times> (py_exn + pyval)" where
  "agent_call n f args kwargs =
     ([ToolCall n args kwargs],
      (case f args kwargs of
         Inl e \<Rightarrow> (if is_Exception e then Inr (PStr (error_executing (PStr n) e)) else Inl e)
       | Inr v \<Rightarrow> Inr v))"

definition executor_call :: "string \<Rightarrow> tool_function \<Rightarrow> pyval list \<Rightarrow> (string \<times> pyval) list \<Rightarrow> event list \<times> (py_exn + string)" where
  "executor_call n f args kwargs =
     ([ToolCall n args kwargs],
      (case f args kwargs of
         Inl e \<Rightarrow> (if is_Exception e then Inr (error_executing (PStr n) e) else Inl e)
       | Inr v \<Rightarrow> Inr (py_str v)))"

text \<open>
  A role is populated when its value is neither empty (or absent) nor the text
  \<^verbatim>\<open>"None"\<close>: the negation of the test both loops make on the tool name.
\<close>

definition populated :: "pyval \<Rightarrow> bool" where
  "populated v = (truthy v \<and> v \<noteq> PStr ''None'')"

fun is_model_call :: "event \<Rightarrow> bool" where
  "is_model_call (ModelCall p) = True"
| "is_model_call (ToolCall n args kwargs) = False"

definition model_calls :: "event list \<Rightarrow> nat" where
  "model_calls evs = length (filter is_model_call evs)"

definition tool_runs :: "event list \<Rightarrow> nat" where
  "tool_runs evs = length (filter (\<lambda>ev. \<not> is_model_call ev) evs)"

text \<open>
  Two whole calls of \<^verbatim>\<open>ToolCallAgent.invoke\<close>: the model first names a tool that is not
  registered and then answers; the model leaves out the tool and its parameters.
\<close>

definition unknown_tool_run :: "tool_call_agent \<times> loop_state \<times> (py_exn + pyval)" where
  "unknown_tool_run =
     ToolCallAgent_invoke example_env
       (example_agent (scripted [fenced block_unknown, fenced block_final]) (PStr ''4'')) ''hi''"

definition missing_fields_run :: "tool_call_agent \<times> loop_state \<times> (py_exn + pyval)" where
  "missing_fields_run =
     ToolCallAgent_invoke example_env
       (example_agent (scripted [fenced block_answer_only]) (PStr ''4'')) ''hi''"


text \<open>
  An agent of agent.py that has answered one request and is given a second tool afterwards.
\<close>

definition stale_agent :: tool_call_agent where
  "stale_agent =
     add_tool ''weather'' ''Gets the weather'' (constant_tool (PStr ''sunny''))
       (fst (ToolCallAgent_invoke example_env
               (example_agent (scripted [fenced block_final]) (PStr ''4'')) ''hi''))"

text \<open>
  The operations on a \<^verbatim>\<open>FlexibleAgent\<close> that touch the registry or the cached prompt, and the
  property that the cache, when present, is the compilation of the current registry.
\<close>

datatype agent_op =
    Add_tool string string tool_function "pyval option"
  | Remove_tool string
  | Invoke string "int option"

fun apply_op :: "pyenv \<Rightarrow> flexible_agent \<Rightarrow> agent_op \<Rightarrow> flexible_agent" where
  "apply_op env agent (Add_tool name descr f schema) = BaseAgent_add_tool name descr f schema agent"
| "apply_op env agent (Remove_tool name) = snd (remove_tool name agent)"
| "apply_op env agent (Invoke query kw) = fst (FlexibleAgent_invoke env agent query kw)"

definition cache_consistent :: "flexible_agent \<Rightarrow> bool" where
  "cache_consistent agent =
     (case compiled_prompt agent of
        None \<Rightarrow> True
      | Some c \<Rightarrow>
          (case prompt_template agent of
             None \<Rightarrow> False
           | Some template \<Rightarrow> c = FlexibleAgent_compile_prompt (config agent) (tools agent) template))"

text \<open>The scratchpad that the entries of a transcript make up.\<close>

definition pad_of :: "(pyval \<Rightarrow> pyval \<Rightarrow> string) \<Rightarrow> (pyval \<times> pyval) list \<Rightarrow> string" where
  "pad_of entry ts = concat (map (\<lambda>(n, r). entry n r) ts)"


section \<open>Properties of the parameter binder\<close>

text \<open>
  For a registered tool, both binders either call without arguments, or decode the
  parameters and go to the dispatch on the shape of the decoded value.
\<close>

lemma execute_tool_decoded:
  assumes "map_of available_tools n = Some info" "truthy p" "p \<noteq> PStr ''None''"
  shows "execute_tool env (PStr n) p available_tools =
    (case loads_if_str env p of
       Inl e \<Rightarrow> ([], Inl e)
     | Inr None \<Rightarrow> ([], Inr (PStr ''Error: Invalid parameter format''))
     | Inr (Some v) \<Rightarrow>
        (case call_with_params n (func info) v of
           (evs, Inl e) \<Rightarrow>
             (if is_Exception e then (evs, Inr (PStr (error_executing (PStr n) e))) else (evs, Inl e))
         | (evs, Inr r) \<Rightarrow> (evs, Inr r)))"
  using assms
  by (simp add: execute_tool_def dict_find_def py_str_def split: option.splits sum.splits)

lemma ToolExecutor_execute_decoded:
  assumes "map_of tls n = Some entry" "truthy p" "p \<noteq> PStr ''None''"
  shows "ToolExecutor_execute env tls (PStr n) p =
    (case loads_if_str env p of
       Inl e \<Rightarrow> ([], Inl e)
     | Inr None \<Rightarrow> ([], Inr ''Error: Invalid parameter format'')
     | Inr (Some v) \<Rightarrow> catch_tool_error (PStr n) (execute_with_params (func entry) v n))"
  using assms
  by (simp add: ToolExecutor_execute_def dict_find_def py_str_def split: option.splits sum.splits)


lemma caught_call_fn:
  "(case call_fn n f args kw of
      (evs, Inl e) \<Rightarrow>
        (if is_Exception e then (evs, Inr (PStr (error_executing (PStr n) e))) else (evs, Inl e))
    | (evs, Inr r) \<Rightarrow> (evs, Inr r)) = agent_call n f args kw"
  by (simp add: call_fn_def agent_call_def split: sum.splits)

lemma caught_str_call_fn:
  "catch_tool_error (PStr n) (str_result (call_fn n f args kw)) = executor_call n f args kw"
  by (simp add: call_fn_def executor_call_def str_result_def catch_tool_error_def split: sum.splits)

lemma ToolExecutor_execute_no_parameters:
  assumes "map_of tls n = Some entry" "\<not> truthy p \<or> p = PStr ''None''"
  shows "ToolExecutor_execute env tls (PStr n) p = executor_call n (func entry) [] []"
  using assms
  by (auto simp add: ToolExecutor_execute_def dict_find_def py_str_def caught_str_call_fn)

lemma loads_if_str_other:
  "\<not> is_str p \<Longrightarrow> loads_if_str env p = Inr (Some p)"
  by (cases p) (simp_all add: loads_if_str_def)

text \<open>Whatever the shape of the decoded parameters, the dispatch makes at most one call.\<close>

lemma execute_with_params_shape:
  "execute_with_params f v n = ([], Inl (PyExn ''IndexError'' ''list index out of range''))
   \<or> (\<exists>args kw. execute_with_params f v n = str_result (call_fn n f args kw))"
  by (cases "(f, v, n)" rule: execute_with_params.cases) auto

lemma call_with_params_shape:
  "call_with_params n f v = ([], Inl (PyExn ''IndexError'' ''list index out of range''))
   \<or> call_with_params n f v = ([], Inr (PStr ''Error: Unexpected parameter type''))
   \<or> (\<exists>args kw. call_with_params n f v = call_fn n f args kw)"
  by (cases "(n, f, v)" rule: call_with_params.cases) auto

text \<open>
  C10. A mapping whose first key does not look like a name (it is empty or has no
  alphabetic character), and a set, are bound from one entry only: the call is positional,
  built from the comma-separated text of the first key's value (of the key itself when
  that value is empty), respectively of the first element of the set in iteration order.
  Every other entry is discarded: the call and the result do not depend on \<open>rest\<close> or
  \<open>others\<close>, and nothing is reported for them; the result is what the one call
  yields. This holds for \<^verbatim>\<open>execute_tool\<close> of agent.py and for \<^verbatim>\<open>ToolExecutor.execute\<close>.
\<close>

theorem binder_discards_other_entries:
  assumes reg: "map_of available_tools n = Some info" and reg': "map_of tls n = Some entry"
    and key: "\<not> looks_like_name first_key"
  shows "execute_tool env (PStr n) (PDict ((first_key, first_value) # rest)) available_tools
           = agent_call n (func info)
               (comma_params (if truthy first_value then first_value else PStr first_key)) []
       \<and> execute_tool env (PStr n) (PSet (x # others)) available_tools
           = agent_call n (func info) (comma_params x) []
       \<and> ToolExecutor_execute env tls (PStr n) (PDict ((first_key, first_value) # rest))
           = executor_call n (func entry)
               (comma_params (if truthy first_value then first_value else PStr first_key)) []
       \<and> ToolExecutor_execute env tls (PStr n) (PSet (x # others))
           = executor_call n (func entry) (comma_params x) []"
  using key
  by (simp add: execute_tool_decoded [OF reg] ToolExecutor_execute_decoded [OF reg']
      loads_if_str_other caught_call_fn caught_str_call_fn)

theorem binder_discards_other_entries_witness:
  "map_of (example_tools pair_tool) ''calculator''
      = Some \<lparr>description = ''Evaluates math expressions'', func = pair_tool\<rparr>
   \<and> map_of (example_entries pair_tool) ''calculator''
      = Some \<lparr>description = ''Evaluates math expressions'', func = pair_tool, parameter_schema = None\<rparr>
   \<and> \<not> looks_like_name ''1''
   \<and> execute_tool example_env (PStr ''calculator'')
        (PDict [(''1'', PStr ''2, 3''), (''9'', PStr ''dropped'')]) (example_tools pair_tool)
      = ([ToolCall ''calculator'' [PStr ''2'', PStr ''3''] []], Inr (PStr ''2+3''))
   \<and> execute_tool example_env (PStr ''calculator'')
        (PSet [PStr ''2,3'', PStr ''dropped'']) (example_tools pair_tool)
      = ([ToolCall ''calculator'' [PStr ''2'', PStr ''3''] []], Inr (PStr ''2+3''))
   \<and> ToolExecutor_execute example_env (example_entries pair_tool) (PStr ''calculator'')
        (PDict [(''1'', PStr ''''), (''9'', PStr ''dropped'')])
      = ([ToolCall ''calculator'' [PStr ''1''] []],
         Inr ''Error executing tool 'calculator': pair_tool() takes 2 positional arguments'')
   \<and> ToolExecutor_execute example_env (example_entries pair_tool) (PStr ''calculator'')
        (PSet [PStr ''2,3'', PStr ''dropped''])
      = ([ToolCall ''calculator'' [PStr ''2'', PStr ''3''] []], Inr ''2+3'')"
proof -
  have reg: "map_of (example_tools pair_tool) ''calculator''
      = Some \<lparr>description = ''Evaluates math expressions'', func = pair_tool\<rparr>"
    by (simp add: example_tools_def)
  have reg': "map_of (example_entries pair_tool) ''calculator''
      = Some \<lparr>description = ''Evaluates math expressions'', func = pair_tool, parameter_schema = None\<rparr>"
    by (simp add: example_entries_def register_tool_def)
  have key: "\<not> looks_like_name ''1''"
    by (simp add: looks_like_name_def is_alpha_def)
  have c1: "comma_params (PStr ''2, 3'') = [PStr ''2'', PStr ''3'']"
    by (simp add: comma_params_def py_str_def strip_def is_space_def)
  have c2: "comma_params (PStr ''2,3'') = [PStr ''2'', PStr ''3'']"
    by (simp add: comma_params_def py_str_def strip_def is_space_def)
  have c3: "comma_params (PStr ''1'') = [PStr ''1'']"
    by (simp add: comma_params_def py_str_def strip_def is_space_def)
  note a = binder_discards_other_entries [OF reg reg' key, of example_env "PStr ''2, 3''" "[(''9'', PStr ''dropped'')]" "PStr ''2,3''" "[PStr ''dropped'']"]
  note b = binder_discards_other_entries [OF reg reg' key, of example_env "PStr ''''" "[(''9'', PStr ''dropped'')]" "PStr ''2,3''" "[PStr ''dropped'']"]
  show ?thesis
    using a b reg reg' key
    by (simp add: c1 c2 c3 agent_call_def executor_call_def pair_tool_def error_executing_def
        py_str_def quoted_def)
qed

section \<open>Properties of the tool registry\<close>

text \<open>
  C6, as stated, does not hold: registering a second tool under a name that is taken is
  not rejected. Both \<^verbatim>\<open>ToolCallAgent.add_tool\<close> and \<^verbatim>\<open>ToolExecutor.register_tool\<close> assign
  into the dict, and the second description and function replace the first.
\<close>

theorem reregistration_overwrites:
  "map (\<lambda>(n, info). (n, description info, func info [] []))
       (tc_tools (add_tool ''calculator'' ''second'' (constant_tool (PStr ''2''))
          (add_tool ''calculator'' ''first'' (constant_tool (PStr ''1''))
             (ToolCallAgent_init example_template))))
     = [(''calculator'', ''second'', Inr (PStr ''2''))]
   \<and> map (\<lambda>(n, info). (n, description info, func info [] []))
       (register_tool ''calculator'' ''second'' (constant_tool (PStr ''2'')) None
          (register_tool ''calculator'' ''first'' (constant_tool (PStr ''1'')) None []))
     = [(''calculator'', ''second'', Inr (PStr ''2''))]"
  by (simp add: add_tool_def ToolCallAgent_init_def register_tool_def constant_tool_def)

text \<open>
  C6, amended. Registration never fails and the last write wins: after registering
  \<open>n\<close>, resolving \<open>n\<close> gives the new description and function whatever the registry
  held before, every other name resolves as before, and the order of the names is
  unchanged when \<open>n\<close> was registered already (the new entry takes the place of the old
  one) and has \<open>n\<close> appended when it was not.
\<close>

theorem registration_last_write_wins:
  "map_of (tc_tools (add_tool n d f agent)) n = Some \<lparr>description = d, func = f\<rparr>
   \<and> (m \<noteq> n \<longrightarrow> map_of (tc_tools (add_tool n d f agent)) m = map_of (tc_tools agent) m)
   \<and> (map_of (tc_tools agent) n \<noteq> None \<longrightarrow>
        map fst (tc_tools (add_tool n d f agent)) = map fst (tc_tools agent))
   \<and> (map_of (tc_tools agent) n = None \<longrightarrow>
        map fst (tc_tools (add_tool n d f agent)) = map fst (tc_tools agent) @ [n])
   \<and> get_tool n (register_tool n d f schema tls)
        = Some \<lparr>description = d, func = f, parameter_schema = schema\<rparr>
   \<and> (m \<noteq> n \<longrightarrow> get_tool m (register_tool n d f schema tls) = get_tool m tls)
   \<and> (get_tool n tls \<noteq> None \<longrightarrow> list_tools (register_tool n d f schema tls) = list_tools tls)
   \<and> (get_tool n tls = None \<longrightarrow> list_tools (register_tool n d f schema tls) = list_tools tls @ [n])"
  by (auto simp add: add_tool_def register_tool_def get_tool_def list_tools_def update_conv'
      update_keys map_of_eq_None_iff)

theorem registration_last_write_wins_witness:
  "''weather'' \<noteq> ''calculator''
   \<and> map_of (tc_tools (example_agent (repeating []) (PStr ''1''))) ''calculator'' \<noteq> None
   \<and> get_tool ''calculator'' (example_entries (constant_tool (PStr ''1''))) \<noteq> None
   \<and> map_of (tc_tools (add_tool ''calculator'' ''second'' (constant_tool (PStr ''2''))
                 (example_agent (repeating []) (PStr ''1'')))) ''calculator''
        = Some \<lparr>description = ''second'', func = constant_tool (PStr ''2'')\<rparr>
   \<and> map_of (tc_tools (add_tool ''calculator'' ''second'' (constant_tool (PStr ''2''))
                 (example_agent (repeating []) (PStr ''1'')))) ''weather'' = None
   \<and> map fst (tc_tools (add_tool ''calculator'' ''second'' (constant_tool (PStr ''2''))
                 (example_agent (repeating []) (PStr ''1'')))) = [''calculator'']
   \<and> get_tool ''calculator'' (register_tool ''calculator'' ''second'' (constant_tool (PStr ''2'')) None
          (example_entries (constant_tool (PStr ''1''))))
        = Some \<lparr>description = ''second'', func = constant_tool (PStr ''2''), parameter_schema = None\<rparr>
   \<and> get_tool ''weather'' (register_tool ''calculator'' ''second'' (constant_tool (PStr ''2'')) None
          (example_entries (constant_tool (PStr ''1'')))) = None
   \<and> list_tools (register_tool ''calculator'' ''second'' (constant_tool (PStr ''2'')) None
          (example_entries (constant_tool (PStr ''1'')))) = [''calculator'']"
proof -
  have ne: "''weather'' \<noteq> ''calculator''" by simp
  have p1: "map_of (tc_tools (example_agent (repeating []) (PStr ''1''))) ''calculator'' \<noteq> None"
    by (simp add: example_agent_def add_tool_def add_llm_def ToolCallAgent_init_def)
  have p2: "get_tool ''calculator'' (example_entries (constant_tool (PStr ''1''))) \<noteq> None"
    by (simp add: example_entries_def register_tool_def get_tool_def)
  have k1: "map fst (tc_tools (example_agent (repeating []) (PStr ''1''))) = [''calculator'']"
    by (simp add: example_agent_def add_tool_def add_llm_def ToolCallAgent_init_def)
  have k2: "list_tools (example_entries (constant_tool (PStr ''1''))) = [''calculator'']"
    by (simp add: example_entries_def register_tool_def list_tools_def)
  have w1: "map_of (tc_tools (example_agent (repeating []) (PStr ''1''))) ''weather'' = None"
    by (simp add: example_agent_def add_tool_def add_llm_def ToolCallAgent_init_def)
  have w2: "get_tool ''weather'' (example_entries (constant_tool (PStr ''1''))) = None"
    by (simp add: example_entries_def register_tool_def get_tool_def)
  show ?thesis
    using registration_last_write_wins [of "''calculator''" "''second''" "constant_tool (PStr ''2'')"
      "example_agent (repeating []) (PStr ''1'')" "''weather''" None
      "example_entries (constant_tool (PStr ''1''))"] p1 p2
    by (simp add: k1 k2 w1 w2)
qed

lemma latin_letters_are_alphabetic:
  "looks_like_name [CHR 0xE9] \<and> \<not> looks_like_name [CHR 0xD7] \<and> strip [CHR 0xA0, CHR ''a'', CHR 0x85] = ''a''"
  by (simp add: looks_like_name_def is_alpha_def strip_def is_space_def)




section \<open>Errors of tool functions\<close>

text \<open>
  C5, as stated, does not hold: a tool that returns \<^verbatim>\<open>None\<close> or an empty text has not
  failed for the binder. \<^verbatim>\<open>ToolExecutor.execute\<close> returns the text \<^verbatim>\<open>None\<close>, respectively the
  empty text, and \<^verbatim>\<open>execute_tool\<close> returns \<^verbatim>\<open>None\<close> itself; none is an error text that
  carries the name of the tool.
\<close>

theorem absent_result_is_no_error:
  "ToolExecutor_execute example_env (example_entries (constant_tool PNone)) (PStr ''calculator'')
      (PStr ''None'') = ([ToolCall ''calculator'' [] []], Inr ''None'')
   \<and> ToolExecutor_execute example_env (example_entries (constant_tool (PStr ''''))) (PStr ''calculator'')
      (PStr ''None'') = ([ToolCall ''calculator'' [] []], Inr '''')
   \<and> execute_tool example_env (PStr ''calculator'') (PDict [(''expression'', PStr ''2+2'')])
      (example_tools (constant_tool PNone))
      = ([ToolCall ''calculator'' [] [(''expression'', PStr ''2+2'')]], Inr PNone)"
  by (simp add: ToolExecutor_execute_def execute_tool_def example_entries_def example_tools_def
      register_tool_def dict_find_def loads_if_str_def call_fn_def str_result_def
      catch_tool_error_def constant_tool_def py_str_def looks_like_name_def is_alpha_def)

text \<open>
  C5, amended. For a registered tool and every parameters value, \<^verbatim>\<open>ToolExecutor.execute\<close>
  ends in one of three ways: \<^verbatim>\<open>json.loads\<close> raised something else than a
  \<^verbatim>\<open>JSONDecodeError\<close>, which leaves the binder and no call is made; or no call is made and
  a text is returned; or the tool function is called once, and then an exception of the
  function that is an instance of \<^verbatim>\<open>Exception\<close> becomes the text
  \<^verbatim>\<open>Error executing tool '<name>': <message>\<close>, any other exception of the function leaves the
  binder, and a returned value \<open>v\<close>, \<^verbatim>\<open>None\<close> included, becomes \<^verbatim>\<open>str(v)\<close>.
  \<^verbatim>\<open>execute_tool\<close> of agent.py does the same, returning \<open>v\<close> itself, whenever the
  parameters value is neither empty nor the text \<^verbatim>\<open>"None"\<close>. So no instance of
  \<^verbatim>\<open>Exception\<close> raised by a tool function leaves the binder on these paths.
\<close>

theorem tool_exceptions_become_text:
  assumes reg: "map_of available_tools n = Some info" and reg': "map_of tls n = Some entry"
  shows
   "((\<exists>e. loads_if_str env p = Inl e \<and> ToolExecutor_execute env tls (PStr n) p = ([], Inl e))
      \<or> (\<exists>s. ToolExecutor_execute env tls (PStr n) p = ([], Inr s))
      \<or> (\<exists>args kw. ToolExecutor_execute env tls (PStr n) p = executor_call n (func entry) args kw))
    \<and> (truthy p \<and> p \<noteq> PStr ''None'' \<longrightarrow>
        (\<exists>e. loads_if_str env p = Inl e \<and> execute_tool env (PStr n) p available_tools = ([], Inl e))
      \<or> (\<exists>s. execute_tool env (PStr n) p available_tools = ([], Inr (PStr s)))
      \<or> (\<exists>args kw. execute_tool env (PStr n) p available_tools = agent_call n (func info) args kw))
    \<and> (func entry args kw = Inl e \<and> is_Exception e \<longrightarrow>
          executor_call n (func entry) args kw
            = ([ToolCall n args kw], Inr (error_executing (PStr n) e)))
    \<and> (func info args kw = Inl e \<and> is_Exception e \<longrightarrow>
          agent_call n (func info) args kw
            = ([ToolCall n args kw], Inr (PStr (error_executing (PStr n) e))))"
proof (intro conjI impI)
  show "(\<exists>e. loads_if_str env p = Inl e \<and> ToolExecutor_execute env tls (PStr n) p = ([], Inl e))
      \<or> (\<exists>s. ToolExecutor_execute env tls (PStr n) p = ([], Inr s))
      \<or> (\<exists>args kw. ToolExecutor_execute env tls (PStr n) p = executor_call n (func entry) args kw)"
  proof (cases "\<not> truthy p \<or> p = PStr ''None''")
    case True
    then show ?thesis
      by (simp only: ToolExecutor_execute_no_parameters [OF reg' True]) blast
  next
    case False
    then have eq: "ToolExecutor_execute env tls (PStr n) p =
      (case loads_if_str env p of
         Inl e \<Rightarrow> ([], Inl e)
       | Inr None \<Rightarrow> ([], Inr ''Error: Invalid parameter format'')
       | Inr (Some v) \<Rightarrow> catch_tool_error (PStr n) (execute_with_params (func entry) v n))"
      by (simp add: ToolExecutor_execute_decoded [OF reg'])
    show ?thesis
    proof (cases "loads_if_str env p")
      case (Inl e)
      with eq show ?thesis by simp
    next
      case (Inr decoded)
      show ?thesis
      proof (cases decoded)
        case None
        with eq Inr show ?thesis by simp
      next
        case (Some v)
        from execute_with_params_shape [of "func entry" v n] show ?thesis
        proof
          assume "execute_with_params (func entry) v n = ([], Inl (PyExn ''IndexError'' ''list index out of range''))"
          with eq Inr Some show ?thesis by (simp add: catch_tool_error_def)
        next
          assume "\<exists>args kw. execute_with_params (func entry) v n = str_result (call_fn n (func entry) args kw)"
          then obtain args kw where
            "execute_with_params (func entry) v n = str_result (call_fn n (func entry) args kw)" by blast
          with eq Inr Some have "ToolExecutor_execute env tls (PStr n) p = executor_call n (func entry) args kw"
            by (simp add: caught_str_call_fn)
          then show ?thesis by blast
        qed
      qed
    qed
  qed
next
  assume h: "truthy p \<and> p \<noteq> PStr ''None''"
  then have eq: "execute_tool env (PStr n) p available_tools =
    (case loads_if_str env p of
       Inl e \<Rightarrow> ([], Inl e)
     | Inr None \<Rightarrow> ([], Inr (PStr ''Error: Invalid parameter format''))
     | Inr (Some v) \<Rightarrow>
        (case call_with_params n (func info) v of
           (evs, Inl e) \<Rightarrow>
             (if is_Exception e then (evs, Inr (PStr (error_executing (PStr n) e))) else (evs, Inl e))
         | (evs, Inr r) \<Rightarrow> (evs, Inr r)))"
    by (simp add: execute_tool_decoded [OF reg])
  show "(\<exists>e. loads_if_str env p = Inl e \<and> execute_tool env (PStr n) p available_tools = ([], Inl e))
      \<or> (\<exists>s. execute_tool env (PStr n) p available_tools = ([], Inr (PStr s)))
      \<or> (\<exists>args kw. execute_tool env (PStr n) p available_tools = agent_call n (func info) args kw)"
  proof (cases "loads_if_str env p")
    case (Inl e)
    with eq show ?thesis by simp
  next
    case (Inr decoded)
    show ?thesis
    proof (cases decoded)
      case None
      with eq Inr show ?thesis by simp
    next
      case (Some v)
      from call_with_params_shape [of n "func info" v]
      consider "call_with_params n (func info) v = ([], Inl (PyExn ''IndexError'' ''list index out of range''))"
        | "call_with_params n (func info) v = ([], Inr (PStr ''Error: Unexpected parameter type''))"
        | args kw where "call_with_params n (func info) v = call_fn n (func info) args kw"
        by blast
      then show ?thesis
      proof cases
        case 1
        with eq Inr Some show ?thesis by simp
      next
        case 2
        with eq Inr Some show ?thesis by simp
      next
        case 3
        with eq Inr Some have "execute_tool env (PStr n) p available_tools = agent_call n (func info) args kw"
          by (simp add: caught_call_fn)
        then show ?thesis by blast
      qed
    qed
  qed
next
  assume "func entry args kw = Inl e \<and> is_Exception e"
  then show "executor_call n (func entry) args kw = ([ToolCall n args kw], Inr (error_executing (PStr n) e))"
    by (simp add: executor_call_def)
next
  assume "func info args kw = Inl e \<and> is_Exception e"
  then show "agent_call n (func info) args kw = ([ToolCall n args kw], Inr (PStr (error_executing (PStr n) e)))"
    by (simp add: agent_call_def)
qed

theorem tool_exceptions_become_text_witness:
  "map_of (example_tools (raising_tool ''division by zero'')) ''calculator''
      = Some \<lparr>description = ''Evaluates math expressions'', func = raising_tool ''division by zero''\<rparr>
   \<and> map_of (example_entries (raising_tool ''division by zero'')) ''calculator''
      = Some \<lparr>description = ''Evaluates math expressions'', func = raising_tool ''division by zero'',
              parameter_schema = None\<rparr>
   \<and> truthy (PDict [(''expression'', PStr ''1/0'')])
   \<and> raising_tool ''division by zero'' [] [] = Inl (PyExn ''ValueError'' ''division by zero'')
   \<and> is_Exception (PyExn ''ValueError'' ''division by zero'')
   \<and> ToolExecutor_execute example_env (example_entries (raising_tool ''division by zero''))
        (PStr ''calculator'') (PStr ''None'')
      = ([ToolCall ''calculator'' [] []], Inr ''Error executing tool 'calculator': division by zero'')
   \<and> execute_tool example_env (PStr ''calculator'') (PDict [(''expression'', PStr ''1/0'')])
        (example_tools (raising_tool ''division by zero''))
      = ([ToolCall ''calculator'' [] [(''expression'', PStr ''1/0'')]],
         Inr (PStr ''Error executing tool 'calculator': division by zero''))"
proof -
  have reg: "map_of (example_tools (raising_tool ''division by zero'')) ''calculator''
      = Some \<lparr>description = ''Evaluates math expressions'', func = raising_tool ''division by zero''\<rparr>"
    by (simp add: example_tools_def)
  have reg': "map_of (example_entries (raising_tool ''division by zero'')) ''calculator''
      = Some \<lparr>description = ''Evaluates math expressions'', func = raising_tool ''division by zero'',
              parameter_schema = None\<rparr>"
    by (simp add: example_entries_def register_tool_def)
  have raised: "raising_tool ''division by zero'' a k = Inl (PyExn ''ValueError'' ''division by zero'')" for a k
    by (simp add: raising_tool_def)
  have msg: "error_executing (PStr ''calculator'') (PyExn ''ValueError'' ''division by zero'')
      = ''Error executing tool 'calculator': division by zero''"
    by (simp add: error_executing_def py_str_def quoted_def)
  have path1: "ToolExecutor_execute example_env (example_entries (raising_tool ''division by zero''))
        (PStr ''calculator'') (PStr ''None'')
      = executor_call ''calculator'' (raising_tool ''division by zero'') [] []"
    by (simp add: ToolExecutor_execute_no_parameters [OF reg'])
  have path2: "execute_tool example_env (PStr ''calculator'') (PDict [(''expression'', PStr ''1/0'')])
        (example_tools (raising_tool ''division by zero''))
      = agent_call ''calculator'' (raising_tool ''division by zero'') [] [(''expression'', PStr ''1/0'')]"
    by (simp add: execute_tool_decoded [OF reg] loads_if_str_other caught_call_fn
        looks_like_name_def is_alpha_def)
  note t1 = tool_exceptions_become_text [OF reg reg', of example_env "PStr ''None''" "[]" "[]"
      "PyExn ''ValueError'' ''division by zero''"]
  note t2 = tool_exceptions_become_text [OF reg reg', of example_env "PStr ''None''" "[]"
      "[(''expression'', PStr ''1/0'')]" "PyExn ''ValueError'' ''division by zero''"]
  from t1 have a: "executor_call ''calculator'' (raising_tool ''division by zero'') [] []
      = ([ToolCall ''calculator'' [] []], Inr ''Error executing tool 'calculator': division by zero'')"
    by (simp add: raised msg)
  from t2 have b: "agent_call ''calculator'' (raising_tool ''division by zero'') [] [(''expression'', PStr ''1/0'')]
      = ([ToolCall ''calculator'' [] [(''expression'', PStr ''1/0'')]],
         Inr (PStr ''Error executing tool 'calculator': division by zero''))"
    by (simp add: raised msg)
  show ?thesis
    using reg reg' by (simp add: path1 path2 a b raised)
qed

text \<open>
  What leaves the binders as an exception. In agent.py the call without arguments is made
  before the \<^verbatim>\<open>try\<close> block, so there every exception of the tool function leaves
  \<^verbatim>\<open>execute_tool\<close> (the amended C5 says nothing about this path); and an exception that is
  not an instance of \<^verbatim>\<open>Exception\<close>, such as the \<^verbatim>\<open>SystemExit\<close> of \<^verbatim>\<open>sys.exit\<close>, passes
  \<^verbatim>\<open>except Exception\<close> in both binders.
\<close>

lemma zero_argument_exception_propagates:
  "execute_tool example_env (PStr ''calculator'') (PStr ''None'')
     (example_tools (raising_tool ''division by zero''))
   = ([ToolCall ''calculator'' [] []], Inl (PyExn ''ValueError'' ''division by zero''))"
  by (simp add: execute_tool_def example_tools_def dict_find_def call_fn_def raising_tool_def py_str_def)

lemma exit_leaves_the_binder:
  "ToolExecutor_execute example_env (example_entries exiting_tool) (PStr ''calculator'') (PStr ''None'')
   = ([ToolCall ''calculator'' [] []], Inl (PyBaseExn ''SystemExit'' ''1''))"
  by (simp add: ToolExecutor_execute_def example_entries_def register_tool_def dict_find_def
      call_fn_def str_result_def catch_tool_error_def exiting_tool_def py_str_def)

section \<open>The decision of one turn\<close>

text \<open>
  Once the model has replied and the reply has been parsed, a turn of either loop is
  decided by the tool role alone.
\<close>

lemma ToolCallAgent_turn_parsed:
  assumes "l (nat i) (full_prompt prompt pad) = Inr response"
    and "parse_agent_response env response
           = Inr ([(''Tool call'', tool)], [(''Tool Parameters'', params)], [(''Final Response'', answer)])"
  shows "ToolCallAgent_turn env l available_tools prompt i pad =
     (if \<not> populated tool then Return [ModelCall (full_prompt prompt pad)] (Inr answer)
      else (case execute_tool env tool params available_tools of
              (evs, Inl e) \<Rightarrow> Return (ModelCall (full_prompt prompt pad) # evs) (Inl e)
            | (evs, Inr r) \<Rightarrow> Continue (ModelCall (full_prompt prompt pad) # evs) tool r))"
  using assms by (auto simp add: ToolCallAgent_turn_def populated_def dict_get_def Let_def)

lemma FlexibleAgent_turn_parsed:
  assumes "l (nat i) (full_prompt prompt pad) = Inr response"
    and "parse_response env rf response = Inr parsed"
  shows "FlexibleAgent_turn env l rf tls prompt i pad =
     (if \<not> populated (dict_get parsed ''tool'' (PStr ''None''))
      then Return [ModelCall (full_prompt prompt pad)]
             (Inr (if populated (dict_get parsed ''response'' (PStr ''None''))
                   then dict_get parsed ''response'' (PStr ''None'')
                   else PStr ''No response provided''))
      else (case ToolExecutor_execute env tls (dict_get parsed ''tool'' (PStr ''None''))
                   (dict_get parsed ''params'' (PStr ''None'')) of
              (evs, Inl e) \<Rightarrow> Return (ModelCall (full_prompt prompt pad) # evs) (Inl e)
            | (evs, Inr r) \<Rightarrow>
                Continue (ModelCall (full_prompt prompt pad) # evs)
                  (dict_get parsed ''tool'' (PStr ''None'')) (PStr r)))"
  using assms by (auto simp add: FlexibleAgent_turn_def populated_def Let_def)

lemmas example_block_defs = example_blocks_def block_both_def block_tool_def block_unknown_def
  block_final_def block_none_def block_answer_only_def block_empty_def fenced_def turn_dict_def

lemma parse_example_both:
  "parse_agent_response example_env (fenced block_both)
     = Inr ([(''Tool call'', PStr ''calculator'')], [(''Tool Parameters'', PStr ''None'')],
            [(''Final Response'', PStr ''The answer is 4'')])"
  by (simp add: parse_agent_response_def find_json_block_def example_env_def example_block_defs dict_get_def)

lemma parse_response_example_both:
  "parse_response example_env toolcall_format (fenced block_both)
     = Inr [(''tool'', PStr ''calculator''), (''params'', PStr ''None''),
            (''response'', PStr ''The answer is 4'')]"
  by (simp add: parse_response_def parse_json_response_def find_json_block_def example_env_def
      example_block_defs toolcall_format_def missing_keys_def standardize_def get_json_key_def
      dict_get_def)

lemma example_calculator_runs:
  "execute_tool example_env (PStr ''calculator'') (PStr ''None'') (example_tools (constant_tool v))
     = ([ToolCall ''calculator'' [] []], Inr v)"
  "ToolExecutor_execute example_env (example_entries (constant_tool v)) (PStr ''calculator'') (PStr ''None'')
     = ([ToolCall ''calculator'' [] []], Inr (py_str v))"
  by (simp_all add: execute_tool_def ToolExecutor_execute_def example_tools_def example_entries_def
      register_tool_def dict_find_def call_fn_def constant_tool_def py_str_def str_result_def
      catch_tool_error_def)

text \<open>
  C1, as stated, does not hold: on a reply in which both the tool and the answer are
  populated, \<^verbatim>\<open>ToolCallAgent.invoke\<close> calls the tool and goes on to the next iteration; the
  answer is not returned.
\<close>

theorem answer_does_not_end_turn:
  "parse_agent_response example_env (fenced block_both)
     = Inr ([(''Tool call'', PStr ''calculator'')], [(''Tool Parameters'', PStr ''None'')],
            [(''Final Response'', PStr ''The answer is 4'')])
   \<and> ToolCallAgent_turn example_env (repeating (fenced block_both))
        (example_tools (constant_tool (PStr ''4''))) ''What is 2+2?'' 1 []
     = Continue [ModelCall ''What is 2+2?'', ToolCall ''calculator'' [] []] (PStr ''calculator'') (PStr ''4'')"
proof -
  have reply: "repeating (fenced block_both) (nat 1) (full_prompt ''What is 2+2?'' []) = Inr (fenced block_both)"
    by (simp add: repeating_def)
  have run: "execute_tool example_env (PStr ''calculator'') (PStr ''None'')
       (example_tools (constant_tool (PStr ''4''))) = ([ToolCall ''calculator'' [] []], Inr (PStr ''4''))"
    by (simp add: execute_tool_def example_tools_def dict_find_def call_fn_def constant_tool_def py_str_def)
  note turn = ToolCallAgent_turn_parsed [where l = "repeating (fenced block_both)" and i = 1
      and prompt = "''What is 2+2?''" and pad = "[]", OF reply parse_example_both]
  show ?thesis
    by (simp add: turn parse_example_both run populated_def full_prompt_def)
qed

text \<open>
  C1, amended. The tool role takes precedence over the answer role: in every turn whose
  parsed reply has a populated tool role, whatever the answer role holds, both loops call
  the binder with that tool and the parameters; the turn returns from \<^verbatim>\<open>invoke\<close> only if
  the binder raises, and otherwise proceeds to the scratchpad update with the tool result.
\<close>

theorem tool_role_takes_precedence:
  assumes reply: "l (nat i) (full_prompt prompt pad) = Inr response"
  shows
   "(parse_agent_response env response
        = Inr ([(''Tool call'', tool)], [(''Tool Parameters'', params)], [(''Final Response'', answer)])
      \<and> populated tool \<longrightarrow>
        ToolCallAgent_turn env l available_tools prompt i pad =
          (case execute_tool env tool params available_tools of
             (evs, Inl e) \<Rightarrow> Return (ModelCall (full_prompt prompt pad) # evs) (Inl e)
           | (evs, Inr r) \<Rightarrow> Continue (ModelCall (full_prompt prompt pad) # evs) tool r))
    \<and> (parse_response env rf response = Inr parsed
      \<and> populated (dict_get parsed ''tool'' (PStr ''None'')) \<longrightarrow>
        FlexibleAgent_turn env l rf tls prompt i pad =
          (case ToolExecutor_execute env tls (dict_get parsed ''tool'' (PStr ''None''))
                  (dict_get parsed ''params'' (PStr ''None'')) of
             (evs, Inl e) \<Rightarrow> Return (ModelCall (full_prompt prompt pad) # evs) (Inl e)
           | (evs, Inr r) \<Rightarrow>
               Continue (ModelCall (full_prompt prompt pad) # evs)
                 (dict_get parsed ''tool'' (PStr ''None'')) (PStr r)))"
proof (intro conjI impI)
  assume h: "parse_agent_response env response
        = Inr ([(''Tool call'', tool)], [(''Tool Parameters'', params)], [(''Final Response'', answer)])
      \<and> populated tool"
  with ToolCallAgent_turn_parsed [where l = l and i = i and prompt = prompt and pad = pad, OF reply]
  show "ToolCallAgent_turn env l available_tools prompt i pad =
          (case execute_tool env tool params available_tools of
             (evs, Inl e) \<Rightarrow> Return (ModelCall (full_prompt prompt pad) # evs) (Inl e)
           | (evs, Inr r) \<Rightarrow> Continue (ModelCall (full_prompt prompt pad) # evs) tool r)"
    by simp
next
  assume h: "parse_response env rf response = Inr parsed
      \<and> populated (dict_get parsed ''tool'' (PStr ''None''))"
  with FlexibleAgent_turn_parsed [where l = l and i = i and prompt = prompt and pad = pad, OF reply]
  show "FlexibleAgent_turn env l rf tls prompt i pad =
          (case ToolExecutor_execute env tls (dict_get parsed ''tool'' (PStr ''None''))
                  (dict_get parsed ''params'' (PStr ''None'')) of
             (evs, Inl e) \<Rightarrow> Return (ModelCall (full_prompt prompt pad) # evs) (Inl e)
           | (evs, Inr r) \<Rightarrow>
               Continue (ModelCall (full_prompt prompt pad) # evs)
                 (dict_get parsed ''tool'' (PStr ''None'')) (PStr r))"
    by simp
qed

theorem tool_role_takes_precedence_witness:
  "repeating (fenced block_both) (nat 1) (full_prompt ''What is 2+2?'' []) = Inr (fenced block_both)
   \<and> parse_agent_response example_env (fenced block_both)
        = Inr ([(''Tool call'', PStr ''calculator'')], [(''Tool Parameters'', PStr ''None'')],
               [(''Final Response'', PStr ''The answer is 4'')])
   \<and> populated (PStr ''calculator'')
   \<and> ToolCallAgent_turn example_env (repeating (fenced block_both))
        (example_tools (constant_tool (PStr ''4''))) ''What is 2+2?'' 1 []
      = Continue [ModelCall ''What is 2+2?'', ToolCall ''calculator'' [] []] (PStr ''calculator'') (PStr ''4'')
   \<and> parse_response example_env toolcall_format (fenced block_both)
        = Inr [(''tool'', PStr ''calculator''), (''params'', PStr ''None''),
               (''response'', PStr ''The answer is 4'')]
   \<and> FlexibleAgent_turn example_env (repeating (fenced block_both)) toolcall_format
        (example_entries (constant_tool (PStr ''4''))) ''What is 2+2?'' 1 []
      = Continue [ModelCall ''What is 2+2?'', ToolCall ''calculator'' [] []] (PStr ''calculator'') (PStr ''4'')"
proof -
  have reply: "repeating (fenced block_both) (nat 1) (full_prompt ''What is 2+2?'' []) = Inr (fenced block_both)"
    by (simp add: repeating_def)
  have pop: "populated (PStr ''calculator'')"
    by (simp add: populated_def)
  note t = tool_role_takes_precedence [where l = "repeating (fenced block_both)" and i = 1
      and prompt = "''What is 2+2?''" and pad = "[]", OF reply,
      of example_env "PStr ''calculator''" "PStr ''None''" "PStr ''The answer is 4''"
        "example_tools (constant_tool (PStr ''4''))" toolcall_format
        "[(''tool'', PStr ''calculator''), (''params'', PStr ''None''), (''response'', PStr ''The answer is 4'')]"
        "example_entries (constant_tool (PStr ''4''))"]
  show ?thesis
    using t reply pop
    by (simp add: parse_example_both parse_response_example_both dict_get_def
        example_calculator_runs full_prompt_def py_str_def)
qed

text \<open>
  C9, as stated, does not hold. \<^verbatim>\<open>FlexibleAgent.invoke\<close> ends the call on a reply whose tool
  and answer are both the sentinel (with a placeholder text), and it does not end the call
  on a reply that has a populated answer next to a populated tool.
\<close>

theorem finish_does_not_follow_answer:
  "parse_response example_env toolcall_format (fenced block_none)
     = Inr [(''tool'', PStr ''None''), (''params'', PStr ''None''), (''response'', PStr ''None'')]
   \<and> FlexibleAgent_turn example_env (repeating (fenced block_none)) toolcall_format
        (example_entries (constant_tool (PStr ''4''))) ''What is 2+2?'' 1 []
      = Return [ModelCall ''What is 2+2?''] (Inr (PStr ''No response provided''))
   \<and> parse_response example_env toolcall_format (fenced block_both)
     = Inr [(''tool'', PStr ''calculator''), (''params'', PStr ''None''),
            (''response'', PStr ''The answer is 4'')]
   \<and> FlexibleAgent_turn example_env (repeating (fenced block_both)) toolcall_format
        (example_entries (constant_tool (PStr ''4''))) ''What is 2+2?'' 1 []
      = Continue [ModelCall ''What is 2+2?'', ToolCall ''calculator'' [] []] (PStr ''calculator'') (PStr ''4'')"
proof -
  have p: "parse_response example_env toolcall_format (fenced block_none)
     = Inr [(''tool'', PStr ''None''), (''params'', PStr ''None''), (''response'', PStr ''None'')]"
    by (simp add: parse_response_def parse_json_response_def find_json_block_def example_env_def
      example_block_defs toolcall_format_def missing_keys_def standardize_def get_json_key_def
      dict_get_def)
  have r1: "repeating (fenced block_none) (nat 1) (full_prompt ''What is 2+2?'' []) = Inr (fenced block_none)"
    by (simp add: repeating_def)
  have r2: "repeating (fenced block_both) (nat 1) (full_prompt ''What is 2+2?'' []) = Inr (fenced block_both)"
    by (simp add: repeating_def)
  note t1 = FlexibleAgent_turn_parsed [where l = "repeating (fenced block_none)" and i = 1
      and prompt = "''What is 2+2?''" and pad = "[]", OF r1 p]
  note t2 = FlexibleAgent_turn_parsed [where l = "repeating (fenced block_both)" and i = 1
      and prompt = "''What is 2+2?''" and pad = "[]", OF r2 parse_response_example_both]
  show ?thesis
    by (simp add: p parse_response_example_both t1 t2 dict_get_def populated_def
        example_calculator_runs full_prompt_def py_str_def)
qed

text \<open>
  C9, amended. In both loops a turn finishes the call with a final answer exactly when the
  tool role of the parsed reply is not populated: then it returns without calling a tool,
  and with a populated tool role it returns no final answer in that turn. What is returned
  is the answer role when that is populated; when it is not, \<^verbatim>\<open>FlexibleAgent.invoke\<close>
  returns the text \<^verbatim>\<open>No response provided\<close>, so that it never returns the sentinel.
\<close>

theorem finish_decided_by_tool_role:
  assumes reply: "l (nat i) (full_prompt prompt pad) = Inr response"
  shows
   "(parse_response env rf response = Inr parsed \<longrightarrow>
       (\<not> populated (dict_get parsed ''tool'' (PStr ''None'')) \<longrightarrow>
          FlexibleAgent_turn env l rf tls prompt i pad =
            Return [ModelCall (full_prompt prompt pad)]
              (Inr (if populated (dict_get parsed ''response'' (PStr ''None''))
                    then dict_get parsed ''response'' (PStr ''None'')
                    else PStr ''No response provided'')))
     \<and> (populated (dict_get parsed ''tool'' (PStr ''None'')) \<longrightarrow>
          FlexibleAgent_turn env l rf tls prompt i pad \<noteq> Return evs (Inr final)))
    \<and> FlexibleAgent_turn env l rf tls prompt i pad \<noteq> Return evs (Inr (PStr ''None''))
    \<and> (parse_agent_response env response
          = Inr ([(''Tool call'', tool)], [(''Tool Parameters'', params)], [(''Final Response'', answer)]) \<longrightarrow>
       (\<not> populated tool \<longrightarrow>
          (\<exists>returned. ToolCallAgent_turn env l available_tools prompt i pad =
             Return [ModelCall (full_prompt prompt pad)] (Inr returned)))
     \<and> (\<not> populated tool \<and> populated answer \<longrightarrow>
          ToolCallAgent_turn env l available_tools prompt i pad =
            Return [ModelCall (full_prompt prompt pad)] (Inr answer))
     \<and> (populated tool \<longrightarrow>
          ToolCallAgent_turn env l available_tools prompt i pad \<noteq> Return evs (Inr final)))"
proof (intro conjI impI)
  assume p: "parse_response env rf response = Inr parsed"
  note t = FlexibleAgent_turn_parsed [where l = l and i = i and prompt = prompt and pad = pad, OF reply p]
  { assume "\<not> populated (dict_get parsed ''tool'' (PStr ''None''))"
    then show "FlexibleAgent_turn env l rf tls prompt i pad =
            Return [ModelCall (full_prompt prompt pad)]
              (Inr (if populated (dict_get parsed ''response'' (PStr ''None''))
                    then dict_get parsed ''response'' (PStr ''None'')
                    else PStr ''No response provided''))"
      by (simp add: t) }
  { assume "populated (dict_get parsed ''tool'' (PStr ''None''))"
    then show "FlexibleAgent_turn env l rf tls prompt i pad \<noteq> Return evs (Inr final)"
      by (simp add: t split: prod.splits sum.splits) }
next
  show "FlexibleAgent_turn env l rf tls prompt i pad \<noteq> Return evs (Inr (PStr ''None''))"
  proof (cases "parse_response env rf response")
    case (Inl e)
    with reply show ?thesis by (simp add: FlexibleAgent_turn_def parse_error_def Let_def)
  next
    case (Inr parsed)
    note t = FlexibleAgent_turn_parsed [where l = l and i = i and prompt = prompt and pad = pad, OF reply Inr]
    show ?thesis
      by (simp add: t populated_def split: prod.splits sum.splits)
  qed
next
  assume p: "parse_agent_response env response
          = Inr ([(''Tool call'', tool)], [(''Tool Parameters'', params)], [(''Final Response'', answer)])"
  note t = ToolCallAgent_turn_parsed [where l = l and i = i and prompt = prompt and pad = pad, OF reply p]
  { assume "\<not> populated tool"
    then show "\<exists>returned. ToolCallAgent_turn env l available_tools prompt i pad =
             Return [ModelCall (full_prompt prompt pad)] (Inr returned)"
      by (simp add: t) }
  { assume "\<not> populated tool \<and> populated answer"
    then show "ToolCallAgent_turn env l available_tools prompt i pad =
            Return [ModelCall (full_prompt prompt pad)] (Inr answer)"
      by (simp add: t) }
  { assume "populated tool"
    then show "ToolCallAgent_turn env l available_tools prompt i pad \<noteq> Return evs (Inr final)"
      by (simp add: t split: prod.splits sum.splits) }
qed

theorem finish_decided_by_tool_role_witness:
  "repeating (fenced block_final) (nat 1) (full_prompt ''What is 2+2?'' []) = Inr (fenced block_final)
   \<and> parse_response example_env toolcall_format (fenced block_final)
        = Inr [(''tool'', PStr ''None''), (''params'', PStr ''None''), (''response'', PStr ''done'')]
   \<and> parse_agent_response example_env (fenced block_final)
        = Inr ([(''Tool call'', PStr ''None'')], [(''Tool Parameters'', PStr ''None'')],
               [(''Final Response'', PStr ''done'')])
   \<and> \<not> populated (PStr ''None'') \<and> populated (PStr ''done'')
   \<and> FlexibleAgent_turn example_env (repeating (fenced block_final)) toolcall_format
        (example_entries (constant_tool (PStr ''4''))) ''What is 2+2?'' 1 []
      = Return [ModelCall ''What is 2+2?''] (Inr (PStr ''done''))
   \<and> ToolCallAgent_turn example_env (repeating (fenced block_final))
        (example_tools (constant_tool (PStr ''4''))) ''What is 2+2?'' 1 []
      = Return [ModelCall ''What is 2+2?''] (Inr (PStr ''done''))
   \<and> repeating (fenced block_none) (nat 1) (full_prompt ''What is 2+2?'' []) = Inr (fenced block_none)
   \<and> parse_agent_response example_env (fenced block_none)
        = Inr ([(''Tool call'', PStr ''None'')], [(''Tool Parameters'', PStr ''None'')],
               [(''Final Response'', PStr ''None'')])
   \<and> (\<exists>returned. ToolCallAgent_turn example_env (repeating (fenced block_none))
          (example_tools (constant_tool (PStr ''4''))) ''What is 2+2?'' 1 []
        = Return [ModelCall ''What is 2+2?''] (Inr returned))
   \<and> repeating (fenced block_both) (nat 1) (full_prompt ''What is 2+2?'' []) = Inr (fenced block_both)
   \<and> populated (PStr ''calculator'')
   \<and> FlexibleAgent_turn example_env (repeating (fenced block_both)) toolcall_format
        (example_entries (constant_tool (PStr ''4''))) ''What is 2+2?'' 1 []
      \<noteq> Return [ModelCall ''What is 2+2?''] (Inr (PStr ''The answer is 4''))
   \<and> ToolCallAgent_turn example_env (repeating (fenced block_both))
        (example_tools (constant_tool (PStr ''4''))) ''What is 2+2?'' 1 []
      \<noteq> Return [ModelCall ''What is 2+2?''] (Inr (PStr ''The answer is 4''))"
proof -
  have r1: "repeating (fenced block_final) (nat 1) (full_prompt ''What is 2+2?'' []) = Inr (fenced block_final)"
    by (simp add: repeating_def)
  have r2: "repeating (fenced block_both) (nat 1) (full_prompt ''What is 2+2?'' []) = Inr (fenced block_both)"
    by (simp add: repeating_def)
  have p1: "parse_response example_env toolcall_format (fenced block_final)
        = Inr [(''tool'', PStr ''None''), (''params'', PStr ''None''), (''response'', PStr ''done'')]"
    by (simp add: parse_response_def parse_json_response_def find_json_block_def example_env_def
      example_block_defs toolcall_format_def missing_keys_def standardize_def get_json_key_def
      dict_get_def)
  have p2: "parse_agent_response example_env (fenced block_final)
        = Inr ([(''Tool call'', PStr ''None'')], [(''Tool Parameters'', PStr ''None'')],
               [(''Final Response'', PStr ''done'')])"
    by (simp add: parse_agent_response_def find_json_block_def example_env_def example_block_defs
        dict_get_def)
  have pops: "\<not> populated (PStr ''None'')" "populated (PStr ''done'')" "populated (PStr ''calculator'')"
    by (simp_all add: populated_def)
  have r3: "repeating (fenced block_none) (nat 1) (full_prompt ''What is 2+2?'' []) = Inr (fenced block_none)"
    by (simp add: repeating_def)
  have p3: "parse_agent_response example_env (fenced block_none)
        = Inr ([(''Tool call'', PStr ''None'')], [(''Tool Parameters'', PStr ''None'')],
               [(''Final Response'', PStr ''None'')])"
    by (simp add: parse_agent_response_def find_json_block_def example_env_def example_block_defs
        dict_get_def)
  note t3 = finish_decided_by_tool_role [where l = "repeating (fenced block_none)" and i = 1
      and prompt = "''What is 2+2?''" and pad = "[]", OF r3,
      of example_env toolcall_format _ _ _ _
        "PStr ''None''" "PStr ''None''" "PStr ''None''" "example_tools (constant_tool (PStr ''4''))"]
  from t3 p3 pops(1)
  have both_sentinel: "\<exists>returned. ToolCallAgent_turn example_env (repeating (fenced block_none))
          (example_tools (constant_tool (PStr ''4''))) ''What is 2+2?'' 1 []
        = Return [ModelCall ''What is 2+2?''] (Inr returned)"
    by (simp add: full_prompt_def)
  note t1 = finish_decided_by_tool_role [where l = "repeating (fenced block_final)" and i = 1
      and prompt = "''What is 2+2?''" and pad = "[]", OF r1,
      of example_env toolcall_format
        "[(''tool'', PStr ''None''), (''params'', PStr ''None''), (''response'', PStr ''done'')]"
        "example_entries (constant_tool (PStr ''4''))" _ _
        "PStr ''None''" "PStr ''None''" "PStr ''done''" "example_tools (constant_tool (PStr ''4''))"]
  note t2 = finish_decided_by_tool_role [where l = "repeating (fenced block_both)" and i = 1
      and prompt = "''What is 2+2?''" and pad = "[]", OF r2,
      of example_env toolcall_format
        "[(''tool'', PStr ''calculator''), (''params'', PStr ''None''), (''response'', PStr ''The answer is 4'')]"
        "example_entries (constant_tool (PStr ''4''))" "[ModelCall ''What is 2+2?'']" "PStr ''The answer is 4''"
        "PStr ''calculator''" "PStr ''None''" "PStr ''The answer is 4''"
        "example_tools (constant_tool (PStr ''4''))"]
  show ?thesis
    using t1 t2 r1 r2 r3 pops both_sentinel
    by (simp add: p1 p2 p3 parse_example_both parse_response_example_both dict_get_def full_prompt_def)
qed

text \<open>
  What the statement above leaves out: when neither role is populated,
  \<^verbatim>\<open>ToolCallAgent.invoke\<close> returns the sentinel itself. Its fallback text
  \<^verbatim>\<open>No response provided\<close> is the default of a \<^verbatim>\<open>get\<close> on a dict that always has the key.
\<close>

lemma ToolCallAgent_returns_sentinel:
  "ToolCallAgent_turn example_env (repeating (fenced block_none))
     (example_tools (constant_tool (PStr ''4''))) ''What is 2+2?'' 1 []
   = Return [ModelCall ''What is 2+2?''] (Inr (PStr ''None''))"
proof -
  have r: "repeating (fenced block_none) (nat 1) (full_prompt ''What is 2+2?'' []) = Inr (fenced block_none)"
    by (simp add: repeating_def)
  have p: "parse_agent_response example_env (fenced block_none)
        = Inr ([(''Tool call'', PStr ''None'')], [(''Tool Parameters'', PStr ''None'')],
               [(''Final Response'', PStr ''None'')])"
    by (simp add: parse_agent_response_def find_json_block_def example_env_def example_block_defs
        dict_get_def)
  show ?thesis
    by (simp add: ToolCallAgent_turn_parsed [where l = "repeating (fenced block_none)" and i = 1
      and prompt = "''What is 2+2?''" and pad = "[]", OF r p] populated_def full_prompt_def)
qed

section \<open>A tool that is not registered\<close>

lemma unknown_tool_results:
  assumes "map_of available_tools t = None"
  shows "execute_tool env (PStr t) params available_tools = ([], Inr (PStr (tool_not_found (PStr t))))"
  using assms by (simp add: execute_tool_def dict_find_def)

lemma ToolExecutor_unknown_tool_results:
  assumes "map_of tls t = None"
  shows "ToolExecutor_execute env tls (PStr t) params = ([], Inr (tool_not_found (PStr t)))"
  using assms by (simp add: ToolExecutor_execute_def dict_find_def)

lemma parse_example_unknown:
  "parse_agent_response example_env (fenced block_unknown)
     = Inr ([(''Tool call'', PStr ''weather'')], [(''Tool Parameters'', PStr ''None'')],
            [(''Final Response'', PStr ''None'')])"
  "parse_response example_env toolcall_format (fenced block_unknown)
     = Inr [(''tool'', PStr ''weather''), (''params'', PStr ''None''), (''response'', PStr ''None'')]"
  by (simp_all add: parse_agent_response_def parse_response_def parse_json_response_def
      find_json_block_def example_env_def example_block_defs toolcall_format_def missing_keys_def
      standardize_def get_json_key_def dict_get_def)

text \<open>
  C2, as stated, does not hold: when the model names a tool that is not registered,
  \<^verbatim>\<open>invoke\<close> does not abort. The error text of the binder goes into the scratchpad, the
  model is asked again, and here its second reply becomes the result of the call.
\<close>

theorem unknown_tool_does_not_abort:
  "snd (snd unknown_tool_run) = Inr (PStr ''done'')
   \<and> iteration (fst (snd unknown_tool_run)) = 2
   \<and> model_calls (events (fst (snd unknown_tool_run))) = 2
   \<and> tool_runs (events (fst (snd unknown_tool_run))) = 0
   \<and> transcript (fst (snd unknown_tool_run)) = [(PStr ''weather'', PStr ''Error: Tool 'weather' not found'')]"
  by code_simp

text \<open>
  C2, amended. In every iteration within the budget in which the parsed turn names a tool
  \<open>t\<close> that is not in the registry, the binder calls no tool function and returns the
  text \<^verbatim>\<open>Error: Tool 't' not found\<close>; the loop appends that text to the scratchpad as the
  result of the tool and continues with the next iteration, whose prompt shows it to the
  model.
\<close>

theorem unknown_tool_is_reported_to_model:
  assumes reply: "l (nat (iteration st + 1)) (full_prompt prompt (scratchpad st)) = Inr response"
    and budget: "iteration st < max_iter"
    and pop: "populated (PStr t)"
  shows
   "(parse_agent_response env response
        = Inr ([(''Tool call'', PStr t)], [(''Tool Parameters'', params)], [(''Final Response'', answer)])
      \<and> map_of available_tools t = None \<longrightarrow>
        execute_tool env (PStr t) params available_tools = ([], Inr (PStr (tool_not_found (PStr t))))
      \<and> ToolCallAgent_loop env l available_tools prompt max_iter st =
          ToolCallAgent_loop env l available_tools prompt max_iter
            (st\<lparr>iteration := iteration st + 1,
                scratchpad := scratchpad st @ ToolCallAgent_entry (PStr t) (PStr (tool_not_found (PStr t))),
                transcript := transcript st @ [(PStr t, PStr (tool_not_found (PStr t)))],
                events := events st @ [ModelCall (full_prompt prompt (scratchpad st))]\<rparr>))
    \<and> (parse_response env rf response = Inr parsed
      \<and> dict_get parsed ''tool'' (PStr ''None'') = PStr t
      \<and> map_of tls t = None \<longrightarrow>
        ToolExecutor_execute env tls (PStr t) (dict_get parsed ''params'' (PStr ''None''))
          = ([], Inr (tool_not_found (PStr t)))
      \<and> FlexibleAgent_loop env l rf tls prompt max_iter st =
          FlexibleAgent_loop env l rf tls prompt max_iter
            (st\<lparr>iteration := iteration st + 1,
                scratchpad := scratchpad st @ FlexibleAgent_entry (PStr t) (PStr (tool_not_found (PStr t))),
                transcript := transcript st @ [(PStr t, PStr (tool_not_found (PStr t)))],
                events := events st @ [ModelCall (full_prompt prompt (scratchpad st))]\<rparr>))"
proof (intro conjI impI)
  assume h: "parse_agent_response env response
        = Inr ([(''Tool call'', PStr t)], [(''Tool Parameters'', params)], [(''Final Response'', answer)])
      \<and> map_of available_tools t = None"
  then have ex: "execute_tool env (PStr t) params available_tools = ([], Inr (PStr (tool_not_found (PStr t))))"
    by (simp add: unknown_tool_results)
  then show "execute_tool env (PStr t) params available_tools = ([], Inr (PStr (tool_not_found (PStr t))))" .
  from h have p: "parse_agent_response env response
        = Inr ([(''Tool call'', PStr t)], [(''Tool Parameters'', params)], [(''Final Response'', answer)])"
    by simp
  have turn: "ToolCallAgent_turn env l available_tools prompt (iteration st + 1) (scratchpad st)
      = Continue [ModelCall (full_prompt prompt (scratchpad st))] (PStr t) (PStr (tool_not_found (PStr t)))"
    using pop
    by (simp add: ToolCallAgent_turn_parsed [where l = l and i = "iteration st + 1" and prompt = prompt
        and pad = "scratchpad st", OF reply p] ex)
  show "ToolCallAgent_loop env l available_tools prompt max_iter st =
          ToolCallAgent_loop env l available_tools prompt max_iter
            (st\<lparr>iteration := iteration st + 1,
                scratchpad := scratchpad st @ ToolCallAgent_entry (PStr t) (PStr (tool_not_found (PStr t))),
                transcript := transcript st @ [(PStr t, PStr (tool_not_found (PStr t)))],
                events := events st @ [ModelCall (full_prompt prompt (scratchpad st))]\<rparr>)"
    using budget by (subst ToolCallAgent_loop.simps) (simp add: turn)
next
  assume h: "parse_response env rf response = Inr parsed
      \<and> dict_get parsed ''tool'' (PStr ''None'') = PStr t
      \<and> map_of tls t = None"
  then have ex: "ToolExecutor_execute env tls (PStr t) (dict_get parsed ''params'' (PStr ''None''))
          = ([], Inr (tool_not_found (PStr t)))"
    by (simp add: ToolExecutor_unknown_tool_results)
  then show "ToolExecutor_execute env tls (PStr t) (dict_get parsed ''params'' (PStr ''None''))
          = ([], Inr (tool_not_found (PStr t)))" .
  from h have p: "parse_response env rf response = Inr parsed" by simp
  have turn: "FlexibleAgent_turn env l rf tls prompt (iteration st + 1) (scratchpad st)
      = Continue [ModelCall (full_prompt prompt (scratchpad st))] (PStr t) (PStr (tool_not_found (PStr t)))"
    using pop h
    by (simp add: FlexibleAgent_turn_parsed [where l = l and i = "iteration st + 1" and prompt = prompt
        and pad = "scratchpad st", OF reply p] ex)
  show "FlexibleAgent_loop env l rf tls prompt max_iter st =
          FlexibleAgent_loop env l rf tls prompt max_iter
            (st\<lparr>iteration := iteration st + 1,
                scratchpad := scratchpad st @ FlexibleAgent_entry (PStr t) (PStr (tool_not_found (PStr t))),
                transcript := transcript st @ [(PStr t, PStr (tool_not_found (PStr t)))],
                events := events st @ [ModelCall (full_prompt prompt (scratchpad st))]\<rparr>)"
    using budget by (subst FlexibleAgent_loop.simps) (simp add: turn)
qed

theorem unknown_tool_is_reported_to_model_witness:
  "scripted [fenced block_unknown, fenced block_final] (nat (iteration initial_state + 1))
       (full_prompt ''hi'' (scratchpad initial_state)) = Inr (fenced block_unknown)
   \<and> iteration initial_state < 10
   \<and> populated (PStr ''weather'')
   \<and> map_of (example_tools (constant_tool (PStr ''4''))) ''weather'' = None
   \<and> map_of (example_entries (constant_tool (PStr ''4''))) ''weather'' = None
   \<and> execute_tool example_env (PStr ''weather'') (PStr ''None'') (example_tools (constant_tool (PStr ''4'')))
       = ([], Inr (PStr ''Error: Tool 'weather' not found''))
   \<and> ToolCallAgent_loop example_env (scripted [fenced block_unknown, fenced block_final])
        (example_tools (constant_tool (PStr ''4''))) ''hi'' 10 initial_state
      = ToolCallAgent_loop example_env (scripted [fenced block_unknown, fenced block_final])
          (example_tools (constant_tool (PStr ''4''))) ''hi'' 10
          \<lparr>iteration = 1,
           scratchpad = ToolCallAgent_entry (PStr ''weather'') (PStr ''Error: Tool 'weather' not found''),
           transcript = [(PStr ''weather'', PStr ''Error: Tool 'weather' not found'')],
           events = [ModelCall ''hi'']\<rparr>
   \<and> ToolExecutor_execute example_env (example_entries (constant_tool (PStr ''4''))) (PStr ''weather'')
        (PStr ''None'') = ([], Inr ''Error: Tool 'weather' not found'')
   \<and> FlexibleAgent_loop example_env (scripted [fenced block_unknown, fenced block_final]) toolcall_format
        (example_entries (constant_tool (PStr ''4''))) ''hi'' 10 initial_state
      = FlexibleAgent_loop example_env (scripted [fenced block_unknown, fenced block_final]) toolcall_format
          (example_entries (constant_tool (PStr ''4''))) ''hi'' 10
          \<lparr>iteration = 1,
           scratchpad = FlexibleAgent_entry (PStr ''weather'') (PStr ''Error: Tool 'weather' not found''),
           transcript = [(PStr ''weather'', PStr ''Error: Tool 'weather' not found'')],
           events = [ModelCall ''hi'']\<rparr>"
proof -
  have reply: "scripted [fenced block_unknown, fenced block_final] (nat (iteration initial_state + 1))
       (full_prompt ''hi'' (scratchpad initial_state)) = Inr (fenced block_unknown)"
    by (simp add: scripted_def initial_state_def)
  have budget: "iteration initial_state < 10"
    by (simp add: initial_state_def)
  have pop: "populated (PStr ''weather'')"
    by (simp add: populated_def)
  have u1: "map_of (example_tools (constant_tool (PStr ''4''))) ''weather'' = None"
    by (simp add: example_tools_def)
  have u2: "map_of (example_entries (constant_tool (PStr ''4''))) ''weather'' = None"
    by (simp add: example_entries_def register_tool_def)
  have msg: "tool_not_found (PStr ''weather'') = ''Error: Tool 'weather' not found''"
    by (simp add: tool_not_found_def py_str_def quoted_def)
  note t = unknown_tool_is_reported_to_model [where l = "scripted [fenced block_unknown, fenced block_final]"
      and st = initial_state and prompt = "''hi''", OF reply budget pop,
      of example_env "PStr ''None''" "PStr ''None''" "example_tools (constant_tool (PStr ''4''))"
        toolcall_format "[(''tool'', PStr ''weather''), (''params'', PStr ''None''), (''response'', PStr ''None'')]"
        "example_entries (constant_tool (PStr ''4''))"]
  show ?thesis
    using t reply budget pop u1 u2
    by (simp add: parse_example_unknown dict_get_def msg initial_state_def full_prompt_def)
qed

section \<open>Required fields\<close>

text \<open>
  C7, as stated, does not hold for the interpreter of agent.py: \<^verbatim>\<open>parse_agent_response\<close>
  checks no required field. A reply that has the answer only is read with the text
  \<^verbatim>\<open>"None"\<close> in place of the two missing fields, and \<^verbatim>\<open>invoke\<close> returns the answer.
\<close>

theorem missing_fields_defaulted:
  "parse_agent_response example_env (fenced block_answer_only)
     = Inr ([(''Tool call'', PStr ''None'')], [(''Tool Parameters'', PStr ''None'')],
            [(''Final Response'', PStr ''done'')])
   \<and> snd (snd missing_fields_run) = Inr (PStr ''done'')"
  by code_simp

text \<open>
  C7, amended to the interpreter that has a schema. For every response format and every
  reply whose block decodes to a mapping that lacks at least one of the required keys,
  \<^verbatim>\<open>ResponseParser.parse_json_response\<close> raises a \<^verbatim>\<open>ValueError\<close> whose message lists exactly
  the absent keys, in the order of the format, and \<^verbatim>\<open>FlexibleAgent.invoke\<close> returns
  \<^verbatim>\<open>Error parsing response: Missing required keys: [...]\<close> from that iteration, without
  calling a tool and without another request to the model.
\<close>

theorem missing_fields_reported:
  assumes block: "find_json_block env response = Some block"
    and decoded: "json_loads env block = Inr (PDict parsed_json)"
    and missing: "missing_keys (required_keys rf) parsed_json \<noteq> []"
  shows
   "set (missing_keys (required_keys rf) parsed_json)
       = {key \<in> set (required_keys rf). map_of parsed_json key = None}
    \<and> parse_json_response env response (required_keys rf)
       = Inl (PyExn ''ValueError''
           (''Missing required keys: ''
              @ py_str (PList (map PStr (missing_keys (required_keys rf) parsed_json)))))
    \<and> (l (nat (iteration st + 1)) (full_prompt prompt (scratchpad st)) = Inr response
        \<and> iteration st < max_iter \<longrightarrow>
        FlexibleAgent_loop env l rf tls prompt max_iter st =
          (st\<lparr>iteration := iteration st + 1,
              events := events st @ [ModelCall (full_prompt prompt (scratchpad st))]\<rparr>,
           Inr (PStr (''Error parsing response: Missing required keys: ''
              @ py_str (PList (map PStr (missing_keys (required_keys rf) parsed_json)))))))"
proof (intro conjI impI)
  show "set (missing_keys (required_keys rf) parsed_json)
       = {key \<in> set (required_keys rf). map_of parsed_json key = None}"
    by (simp add: missing_keys_def)
  from missing have req: "required_keys rf \<noteq> []"
    by (auto simp add: missing_keys_def)
  show p: "parse_json_response env response (required_keys rf)
       = Inl (PyExn ''ValueError''
           (''Missing required keys: ''
              @ py_str (PList (map PStr (missing_keys (required_keys rf) parsed_json)))))"
    using block decoded missing req by (simp add: parse_json_response_def)
  assume h: "l (nat (iteration st + 1)) (full_prompt prompt (scratchpad st)) = Inr response
        \<and> iteration st < max_iter"
  have turn: "FlexibleAgent_turn env l rf tls prompt (iteration st + 1) (scratchpad st)
      = Return [ModelCall (full_prompt prompt (scratchpad st))]
          (Inr (PStr (''Error parsing response: Missing required keys: ''
              @ py_str (PList (map PStr (missing_keys (required_keys rf) parsed_json))))))"
    using h by (simp add: FlexibleAgent_turn_def parse_response_def p parse_error_def)
  show "FlexibleAgent_loop env l rf tls prompt max_iter st =
          (st\<lparr>iteration := iteration st + 1,
              events := events st @ [ModelCall (full_prompt prompt (scratchpad st))]\<rparr>,
           Inr (PStr (''Error parsing response: Missing required keys: ''
              @ py_str (PList (map PStr (missing_keys (required_keys rf) parsed_json))))))"
    using h by (subst FlexibleAgent_loop.simps) (simp add: turn)
qed

theorem missing_fields_reported_witness:
  "find_json_block example_env (fenced block_answer_only) = Some block_answer_only
   \<and> json_loads example_env block_answer_only = Inr (PDict [(''Final Response'', PStr ''done'')])
   \<and> missing_keys (required_keys toolcall_format) [(''Final Response'', PStr ''done'')]
        = [''Tool call'', ''Tool Parameters'']
   \<and> scripted [fenced block_answer_only] (nat (iteration initial_state + 1))
        (full_prompt ''hi'' (scratchpad initial_state)) = Inr (fenced block_answer_only)
   \<and> iteration initial_state < 10
   \<and> parse_json_response example_env (fenced block_answer_only) (required_keys toolcall_format)
        = Inl (PyExn ''ValueError'' ''Missing required keys: ['Tool call', 'Tool Parameters']'')
   \<and> FlexibleAgent_loop example_env (scripted [fenced block_answer_only]) toolcall_format
        (example_entries (constant_tool (PStr ''4''))) ''hi'' 10 initial_state
      = (\<lparr>iteration = 1, scratchpad = [], transcript = [], events = [ModelCall ''hi'']\<rparr>,
         Inr (PStr ''Error parsing response: Missing required keys: ['Tool call', 'Tool Parameters']''))"
proof -
  have block: "find_json_block example_env (fenced block_answer_only) = Some block_answer_only"
    by (simp add: find_json_block_def example_env_def example_block_defs)
  have decoded: "json_loads example_env block_answer_only = Inr (PDict [(''Final Response'', PStr ''done'')])"
    by (simp add: example_env_def example_block_defs)
  have mk: "missing_keys (required_keys toolcall_format) [(''Final Response'', PStr ''done'')]
        = [''Tool call'', ''Tool Parameters'']"
    by (simp add: missing_keys_def toolcall_format_def)
  then have missing: "missing_keys (required_keys toolcall_format) [(''Final Response'', PStr ''done'')] \<noteq> []"
    by simp
  have reply: "scripted [fenced block_answer_only] (nat (iteration initial_state + 1))
        (full_prompt ''hi'' (scratchpad initial_state)) = Inr (fenced block_answer_only)"
    by (simp add: scripted_def initial_state_def)
  have budget: "iteration initial_state < 10"
    by (simp add: initial_state_def)
  have shown: "py_str (PList [PStr ''Tool call'', PStr ''Tool Parameters''])
      = ''['Tool call', 'Tool Parameters']''"
    by code_simp
  note t = missing_fields_reported [OF block decoded missing,
      where l = "scripted [fenced block_answer_only]" and st = initial_state and prompt = "''hi''"
        and max_iter = 10 and tls = "example_entries (constant_tool (PStr ''4''))"]
  show ?thesis
    using t block decoded reply budget
    by (simp add: mk shown initial_state_def full_prompt_def)
qed

section \<open>The turn budget\<close>

text \<open>
  A call of a binder records at most one call of a tool function. A turn whose reply names
  a tool, and whose binder call returns, reaches the scratchpad update with the result of
  the binder. A loop whose every turn does so runs until the counter reaches the budget.
\<close>

lemma model_calls_simps [simp]:
  "model_calls [] = 0"
  "model_calls (ModelCall p # evs) = Suc (model_calls evs)"
  "model_calls (ToolCall n args kw # evs) = model_calls evs"
  "model_calls (xs @ ys) = model_calls xs + model_calls ys"
  by (simp_all add: model_calls_def)

lemma tool_runs_simps [simp]:
  "tool_runs [] = 0"
  "tool_runs (ModelCall p # evs) = tool_runs evs"
  "tool_runs (ToolCall n args kw # evs) = Suc (tool_runs evs)"
  "tool_runs (xs @ ys) = tool_runs xs + tool_runs ys"
  by (simp_all add: tool_runs_def)

lemma pad_of_simps [simp]:
  "pad_of entry [] = []"
  "pad_of entry (ts @ [(n, r)]) = pad_of entry ts @ entry n r"
  by (simp_all add: pad_of_def)















section \<open>The cached prompt\<close>

text \<open>
  In base\_agent.py every change of the registry resets the cached prompt, and \<^verbatim>\<open>invoke\<close>
  compiles when there is none. So for a \<^verbatim>\<open>FlexibleAgent\<close> the cache, when present, is the
  compilation of the current registry, after every sequence of \<^verbatim>\<open>add_tool\<close>,
  \<^verbatim>\<open>remove_tool\<close> and \<^verbatim>\<open>invoke\<close>. Compilation is a function of the template, the
  configuration and the registry, so compiling twice gives the same text.
\<close>

lemma cache_consistent_init: "cache_consistent (FlexibleAgent_init cfg)"
  by (simp add: cache_consistent_def FlexibleAgent_init_def)

lemma cache_consistent_add_tool: "cache_consistent (BaseAgent_add_tool name descr f schema agent)"
  by (simp add: cache_consistent_def BaseAgent_add_tool_def)

lemma cache_consistent_remove_tool:
  "cache_consistent agent \<Longrightarrow> cache_consistent (snd (remove_tool name agent))"
  by (simp add: cache_consistent_def remove_tool_def unregister_tool_def split: option.splits)

lemma cache_consistent_invoke:
  "cache_consistent agent \<Longrightarrow> cache_consistent (fst (FlexibleAgent_invoke env agent query kw))"
  by (auto simp add: cache_consistent_def FlexibleAgent_invoke_def Let_def
      split: option.splits sum.splits prod.splits)

lemma FlexibleAgent_cache_consistent:
  "cache_consistent agent \<Longrightarrow> cache_consistent (foldl (apply_op env) agent ops)"
proof (induction ops arbitrary: agent)
  case Nil
  then show ?case by simp
next
  case (Cons op ops)
  have "cache_consistent (apply_op env agent op)"
    using Cons.prems
    by (cases op) (simp_all add: cache_consistent_add_tool cache_consistent_remove_tool cache_consistent_invoke)
  then show ?case by (simp add: Cons.IH)
qed

lemma ToolCallAgent_add_tool_keeps_cache:
  "tc_compiled_prompt (add_tool name descr f agent) = tc_compiled_prompt agent"
  by (simp add: add_tool_def)

text \<open>
  C8 for agent.py. \<^verbatim>\<open>ToolCallAgent.add_tool\<close> leaves the cached prompt as it is, and nothing
  else resets it. After one request has been answered, a tool that is added is in the
  registry, but the cache is still the text compiled without it, and the next request
  sends that text to the model.
\<close>

theorem stale_prompt_after_add_tool:
  "map fst (tc_tools stale_agent) = [''calculator'', ''weather'']
   \<and> tc_compiled_prompt stale_agent
       = Some ''Tools:         - calculator: Evaluates math expressions query: {user_input}''
   \<and> tc_compiled_prompt (compile_prompt stale_agent)
       = Some (''Tools:         - calculator: Evaluates math expressions'' @ [CHR 0x0A]
               @ ''        - weather: Gets the weather query: {user_input}'')
   \<and> events (fst (snd (ToolCallAgent_invoke example_env stale_agent ''hi'')))
       = [ModelCall ''Tools:         - calculator: Evaluates math expressions query: hi'']"
  by code_simp

end
